theory Spec2Isabelle
  imports Complex_Main "HOL-Library.Log_Nat"
begin

section \<open>JavaScript numbers\<close>

text \<open>
  The calculator of \<^verbatim>\<open>src/App.jsx\<close> computes with JavaScript Numbers, which are
  IEEE 754 binary64 values. A Number is \<open>NaN\<close>, one of the two infinities, negative
  zero, or \<open>Fin x\<close> for a real \<open>x\<close>; \<open>Fin 0\<close> is positive zero. What a literal, a
  parsed text, a difference or a quotient denotes exactly is rounded by
  \<open>number_value\<close> to the nearest binary64 value, a tie to the one with an even
  significand: 53 significant bits from \<open>2^-1022\<close> up, multiples of \<open>2^-1074\<close> below
  it, an infinity from \<open>2^1024 - 2^970\<close> on, and a zero with the sign of the exact value
  where the nearest multiple of \<open>2^-1074\<close> is zero.
\<close>

datatype jsnum = NaN | PosInf | NegInf | NegZero | Fin real

definition pow2 :: "int \<Rightarrow> real" where
  "pow2 k = (if 0 \<le> k then 2 ^ nat k else 1 / 2 ^ nat (- k))"

text \<open>For \<open>0 < x\<close>, the integer \<open>e\<close> with \<open>2^e \<le> x < 2^(e+1)\<close>.\<close>

definition floor_log2 :: "real \<Rightarrow> int" where
  "floor_log2 x = (if 1 \<le> x then bitlen \<lfloor>x\<rfloor> - 1 else - bitlen (\<lceil>1 / x\<rceil> - 1))"

text \<open>The nearest integer, a tie to the even one.\<close>

definition round_half_even :: "real \<Rightarrow> int" where
  "round_half_even y =
     (let n = \<lfloor>y\<rfloor>; r = y - of_int n
      in if r < 1 / 2 then n
         else if 1 / 2 < r then n + 1
         else if even n then n else n + 1)"

definition overflow_bound :: real where
  "overflow_bound = 2 ^ 1024 - 2 ^ 970"

definition number_value :: "real \<Rightarrow> jsnum" where
  "number_value x =
     (if x = 0 then Fin 0
      else if overflow_bound \<le> \<bar>x\<bar> then (if x < 0 then NegInf else PosInf)
      else
        let e = (if \<bar>x\<bar> < pow2 (- 1022) then - 1022 else floor_log2 \<bar>x\<bar>);
            q = pow2 (e - 52);
            n = round_half_even (\<bar>x\<bar> / q)
        in if n = 0 then (if x < 0 then NegZero else Fin 0)
           else Fin ((if x < 0 then - 1 else 1) * (of_int n * q)))"

text \<open>\<^verbatim>\<open>isNaN(x)\<close> on a Number.\<close>

fun isNaN :: "jsnum \<Rightarrow> bool" where
  "isNaN NaN = True"
| "isNaN PosInf = False"
| "isNaN NegInf = False"
| "isNaN NegZero = False"
| "isNaN (Fin x) = False"

text \<open>The real value of a finite Number (both zeros are \<open>0\<close>), whether a Number is
  finite, is a zero, is an infinity, and its sign bit.\<close>

fun value_of :: "jsnum \<Rightarrow> real" where
  "value_of (Fin x) = x"
| "value_of NaN = 0"
| "value_of PosInf = 0"
| "value_of NegInf = 0"
| "value_of NegZero = 0"

fun is_finite :: "jsnum \<Rightarrow> bool" where
  "is_finite (Fin x) = True"
| "is_finite NegZero = True"
| "is_finite NaN = False"
| "is_finite PosInf = False"
| "is_finite NegInf = False"

definition is_zero :: "jsnum \<Rightarrow> bool" where
  "is_zero v = (is_finite v \<and> value_of v = 0)"

fun is_inf :: "jsnum \<Rightarrow> bool" where
  "is_inf PosInf = True"
| "is_inf NegInf = True"
| "is_inf NaN = False"
| "is_inf NegZero = False"
| "is_inf (Fin x) = False"

fun sign_bit :: "jsnum \<Rightarrow> bool" where
  "sign_bit NegInf = True"
| "sign_bit NegZero = True"
| "sign_bit (Fin x) = (x < 0)"
| "sign_bit NaN = False"
| "sign_bit PosInf = False"

definition signed_inf :: "bool \<Rightarrow> jsnum" where
  "signed_inf s = (if s then NegInf else PosInf)"

definition signed_zero :: "bool \<Rightarrow> jsnum" where
  "signed_zero s = (if s then NegZero else Fin 0)"

text \<open>The relational operators: every comparison with \<open>NaN\<close> is false, and the two
  zeros compare equal.\<close>

definition js_lt :: "jsnum \<Rightarrow> jsnum \<Rightarrow> bool" where
  "js_lt a b =
     (if isNaN a \<or> isNaN b then False
      else if a = PosInf \<or> b = NegInf then False
      else if a = NegInf \<or> b = PosInf then True
      else value_of a < value_of b)"

definition js_gt :: "jsnum \<Rightarrow> jsnum \<Rightarrow> bool" where
  "js_gt a b = js_lt b a"

definition js_le :: "jsnum \<Rightarrow> jsnum \<Rightarrow> bool" where
  "js_le a b = (\<not> isNaN a \<and> \<not> isNaN b \<and> \<not> js_lt b a)"

definition js_ge :: "jsnum \<Rightarrow> jsnum \<Rightarrow> bool" where
  "js_ge a b = js_le b a"

text \<open>\<^verbatim>\<open>a !== b\<close> on Numbers: \<open>NaN\<close> differs from everything, itself included, and
  the two zeros do not differ.\<close>

definition js_strict_neq :: "jsnum \<Rightarrow> jsnum \<Rightarrow> bool" where
  "js_strict_neq a b =
     (isNaN a \<or> isNaN b \<or>
      (if is_finite a \<and> is_finite b then value_of a \<noteq> value_of b else a \<noteq> b))"

text \<open>\<^verbatim>\<open>a - b\<close>. An exact difference of zero is positive zero, except that negative
  zero minus positive zero is negative zero.\<close>

definition js_sub :: "jsnum \<Rightarrow> jsnum \<Rightarrow> jsnum" where
  "js_sub a b =
     (if isNaN a \<or> isNaN b then NaN
      else if a = PosInf then (if b = PosInf then NaN else PosInf)
      else if a = NegInf then (if b = NegInf then NaN else NegInf)
      else if b = PosInf then NegInf
      else if b = NegInf then PosInf
      else if value_of a - value_of b = 0
        then (if a = NegZero \<and> b = Fin 0 then NegZero else Fin 0)
      else number_value (value_of a - value_of b))"

text \<open>\<^verbatim>\<open>a / b\<close>. The sign of a zero or infinite quotient is the exclusive or of the
  sign bits of the operands.\<close>

definition js_div :: "jsnum \<Rightarrow> jsnum \<Rightarrow> jsnum" where
  "js_div a b =
     (if isNaN a \<or> isNaN b then NaN
      else
        let s = (sign_bit a \<noteq> sign_bit b) in
        if is_inf a then (if is_inf b then NaN else signed_inf s)
        else if is_inf b then signed_zero s
        else if value_of b = 0 then (if value_of a = 0 then NaN else signed_inf s)
        else if value_of a = 0 then signed_zero s
        else number_value (value_of a / value_of b))"

section \<open>Parsing and printing numbers\<close>

text \<open>
  \<^verbatim>\<open>parseFloat(string)\<close>: leading white space is skipped, then the longest prefix
  that is a decimal literal is read (an optional sign, then \<^verbatim>\<open>Infinity\<close> or digits
  with an optional fraction and an optional exponent); whatever follows is ignored.
  Without such a prefix the result is \<open>NaN\<close>. The decimal value read is rounded to
  binary64; a literal of value zero gives the zero of its sign. Of the white space
  characters the ASCII ones are modelled.
\<close>

definition is_white_space :: "char \<Rightarrow> bool" where
  "is_white_space c = (c \<in> set [CHR '' '', CHR 0x09, CHR 0x0A, CHR 0x0B, CHR 0x0C, CHR 0x0D])"

definition is_digit :: "char \<Rightarrow> bool" where
  "is_digit c = (c \<in> set ''0123456789'')"

definition digit_value :: "char \<Rightarrow> int" where
  "digit_value c = of_char c - 48"

definition digits_value :: "string \<Rightarrow> int" where
  "digits_value ds = foldl (\<lambda>n c. 10 * n + digit_value c) 0 ds"

definition strip_sign :: "string \<Rightarrow> bool \<times> string" where
  "strip_sign t =
     (case t of
        [] \<Rightarrow> (False, t)
      | c # r \<Rightarrow> if c = CHR ''-'' then (True, r)
                 else if c = CHR ''+'' then (False, r)
                 else (False, t))"

text \<open>The exponent part: \<^verbatim>\<open>e\<close> or \<^verbatim>\<open>E\<close>, an optional sign and at least one
  digit; anything else is no exponent.\<close>

definition exponent_part :: "string \<Rightarrow> int" where
  "exponent_part r =
     (case r of
        [] \<Rightarrow> 0
      | c # r' \<Rightarrow>
          if c = CHR ''e'' \<or> c = CHR ''E'' then
            (let (neg, ds) = strip_sign r'; e = takeWhile is_digit ds
             in if e = [] then 0
                else if neg then - digits_value e else digits_value e)
          else 0)"

definition scale10 :: "real \<Rightarrow> int \<Rightarrow> real" where
  "scale10 m k = (if 0 \<le> k then m * 10 ^ nat k else m / 10 ^ nat (- k))"

definition parseFloat :: "string \<Rightarrow> jsnum" where
  "parseFloat s =
     (let (neg, u) = strip_sign (dropWhile is_white_space s) in
      if take 8 u = ''Infinity'' then (if neg then NegInf else PosInf)
      else
        let ip = takeWhile is_digit u;
            r1 = dropWhile is_digit u;
            (fp, r2) = (case r1 of
                          [] \<Rightarrow> ([], r1)
                        | c # r \<Rightarrow> if c = CHR ''.''
                                   then (takeWhile is_digit r, dropWhile is_digit r)
                                   else ([], r1))
        in if ip = [] \<and> fp = [] then NaN
           else
             let mv = scale10 (of_int (digits_value (ip @ fp)))
                              (exponent_part r2 - int (length fp))
             in if mv = 0 then signed_zero neg
                else number_value (if neg then - mv else mv))"

text \<open>
  \<^verbatim>\<open>x.toFixed(2)\<close>. A value that is not finite prints as its name. A finite value
  of magnitude below \<open>10^21\<close> prints as the integer \<open>n\<close> nearest to \<open>100 * |x|\<close> (the
  larger one of two), with a point before its last two digits, and a minus sign in
  front when \<open>x < 0\<close>; negative zero prints as positive zero does. From \<open>10^21\<close> on the
  text is that of \<^verbatim>\<open>String(x)\<close>, in exponent notation; its digits are not modelled
  and the value is kept instead.
\<close>

datatype jstext = Str string | Exponential real

definition digit_char :: "nat \<Rightarrow> char" where
  "digit_char d = ''0123456789'' ! d"

fun decimal :: "nat \<Rightarrow> string" where
  "decimal n =
     (if n < 10 then [digit_char n]
      else decimal (n div 10) @ [digit_char (n mod 10)])"

declare decimal.simps [simp del]

text \<open>The digits of \<open>n\<close>, padded with zeros on the left to three digits at least, with
  a point before the last two.\<close>

definition fixed2_digits :: "nat \<Rightarrow> string" where
  "fixed2_digits n =
     (let m = decimal n;
          k = length m;
          m' = (if k \<le> 2 then replicate (3 - k) CHR ''0'' @ m else m);
          k' = length m'
      in take (k' - 2) m' @ ''.'' @ drop (k' - 2) m')"

definition fixed2_text :: "real \<Rightarrow> jstext" where
  "fixed2_text x =
     (if 10 ^ 21 \<le> \<bar>x\<bar> then Exponential x
      else Str ((if x < 0 then ''-'' else [])
                @ fixed2_digits (nat \<lfloor>\<bar>x\<bar> * 100 + 1 / 2\<rfloor>)))"

definition toFixed2 :: "jsnum \<Rightarrow> jstext" where
  "toFixed2 v =
     (case v of
        NaN \<Rightarrow> Str ''NaN''
      | PosInf \<Rightarrow> Str ''Infinity''
      | NegInf \<Rightarrow> Str ''-Infinity''
      | NegZero \<Rightarrow> fixed2_text 0
      | Fin x \<Rightarrow> fixed2_text x)"

text \<open>
  What the specification asks a shown value to be: the value rounded to two decimal
  places, a half away from zero, written with its integer digits, a point and exactly
  two more digits.
\<close>

definition two_decimal_text :: "real \<Rightarrow> string" where
  "two_decimal_text x =
     (let h = nat \<lfloor>\<bar>x\<bar> * 100 + 1 / 2\<rfloor>
      in (if x < 0 then ''-'' else [])
         @ decimal (h div 100) @ ''.''
         @ [digit_char (h mod 100 div 10), digit_char (h mod 10)])"

section \<open>The texts shown to the user\<close>

text \<open>
  The interpretation texts of the source are Spanish words followed by an emoji, and
  are not ASCII; each is a constructor here. \<open>Empty\<close> is the empty string,
  \<open>Excelente\<close>, \<open>Bueno\<close>, \<open>Regular\<close>, \<open>Malo\<close> and \<open>Pesimo\<close> are the five labels
  (excellent, good, fair, poor, critical), and the last three are the texts
  \<^verbatim>\<open>Pasivos Circulantes es cero\<close> (current liabilities is zero),
  \<^verbatim>\<open>Patrimonio Neto es cero\<close> (shareholders' equity is zero) and
  \<^verbatim>\<open>Activos Totales es cero\<close> (total assets is zero).
\<close>

datatype label =
    Empty
  | Excelente
  | Bueno
  | Regular
  | Malo
  | Pesimo
  | PasivosCirculantesEsCero
  | PatrimonioNetoEsCero
  | ActivosTotalesEsCero

text \<open>The error state: the empty string, or the one validation message
  (\<^verbatim>\<open>Por favor, ingrese valores numericos validos en todos los campos.\<close>).\<close>

datatype error_text = NoError | ValoresNumericosInvalidos

section \<open>The four classification functions\<close>

text \<open>A JavaScript value, as far as \<^verbatim>\<open>typeof ratio !== 'number'\<close> tells them apart.
  In the four functions a threshold that binary64 holds exactly (\<open>0.5\<close>, \<open>1.0\<close>, \<open>1.5\<close>,
  \<open>2.0\<close>, \<open>5.0\<close>) is written as its value; \<open>0.3\<close>, \<open>0.7\<close> and \<open>0.9\<close> are the
  binary64 values nearest to them.\<close>

datatype jsval = JUndefined | JNull | JString string | JNumber jsnum

definition getCurrentRatioInterpretation :: "jsval \<Rightarrow> label" where
  "getCurrentRatioInterpretation v =
     (case v of
        JNumber ratio \<Rightarrow>
          if isNaN ratio then Empty
          else if js_gt ratio (Fin 2) then Excelente
          else if js_ge ratio (Fin (3 / 2)) then Bueno
          else if js_ge ratio (Fin 1) then Regular
          else if js_ge ratio (Fin (1 / 2)) then Malo
          else Pesimo
      | _ \<Rightarrow> Empty)"

definition getQuickRatioInterpretation :: "jsval \<Rightarrow> label" where
  "getQuickRatioInterpretation v =
     (case v of
        JNumber ratio \<Rightarrow>
          if isNaN ratio then Empty
          else if js_gt ratio (Fin (3 / 2)) then Excelente
          else if js_ge ratio (Fin 1) then Bueno
          else if js_ge ratio (number_value (7 / 10)) then Regular
          else if js_ge ratio (number_value (3 / 10)) then Malo
          else Pesimo
      | _ \<Rightarrow> Empty)"

definition getDebtToEquityInterpretation :: "jsval \<Rightarrow> label" where
  "getDebtToEquityInterpretation v =
     (case v of
        JNumber ratio \<Rightarrow>
          if isNaN ratio then Empty
          else if js_lt ratio (Fin (1 / 2)) then Excelente
          else if js_ge ratio (Fin (1 / 2)) \<and> js_le ratio (Fin 1) then Bueno
          else if js_gt ratio (Fin 1) \<and> js_le ratio (Fin 2) then Regular
          else if js_gt ratio (Fin 2) \<and> js_le ratio (Fin 5) then Malo
          else Pesimo
      | _ \<Rightarrow> Empty)"

definition getDebtToAssetsInterpretation :: "jsval \<Rightarrow> label" where
  "getDebtToAssetsInterpretation v =
     (case v of
        JNumber ratio \<Rightarrow>
          if isNaN ratio then Empty
          else if js_lt ratio (number_value (3 / 10)) then Excelente
          else if js_ge ratio (number_value (3 / 10)) \<and> js_le ratio (Fin (1 / 2)) then Bueno
          else if js_gt ratio (Fin (1 / 2)) \<and> js_le ratio (number_value (7 / 10)) then Regular
          else if js_gt ratio (number_value (7 / 10)) \<and> js_le ratio (number_value (9 / 10)) then Malo
          else Pesimo
      | _ \<Rightarrow> Empty)"

section \<open>The state of the form\<close>

text \<open>
  One field for each \<^verbatim>\<open>useState\<close> cell of the component. The six numeric inputs are
  kept as strings; a ratio cell is \<^verbatim>\<open>null\<close> (\<open>None\<close>) or a text.
\<close>

record app_state =
  companyTicker :: string
  selectedCurrency :: string
  reportDate :: string
  currentAssets :: string
  currentLiabilities :: string
  totalAssets :: string
  totalLiabilities :: string
  shareholdersEquity :: string
  inventory :: string
  currentRatio :: "jstext option"
  currentRatioInterpretation :: label
  quickRatio :: "jstext option"
  quickRatioInterpretation :: label
  debtToEquityRatio :: "jstext option"
  debtToEquityInterpretation :: label
  debtToAssetsRatio :: "jstext option"
  debtToAssetsInterpretation :: label
  error :: error_text

definition initial_state :: app_state where
  "initial_state =
     \<lparr> companyTicker = [], selectedCurrency = ''USD'', reportDate = [],
       currentAssets = [], currentLiabilities = [], totalAssets = [],
       totalLiabilities = [], shareholdersEquity = [], inventory = [],
       currentRatio = None, currentRatioInterpretation = Empty,
       quickRatio = None, quickRatioInterpretation = Empty,
       debtToEquityRatio = None, debtToEquityInterpretation = Empty,
       debtToAssetsRatio = None, debtToAssetsInterpretation = Empty,
       error = NoError \<rparr>"

text \<open>
  \<^verbatim>\<open>handleDisplayNumericInputChange\<close>: what is typed into a numeric field is stored
  without its commas and without any character other than a digit, a point or a minus
  sign.
\<close>

definition cleanedForStorage :: "string \<Rightarrow> string" where
  "cleanedForStorage inputVal =
     filter (\<lambda>c. c \<in> set ''0123456789.-'') (filter (\<lambda>c. c \<noteq> CHR '','') inputVal)"

section \<open>calculateRatios\<close>

text \<open>
  The setters of the source are the field updates here, in the order of the source:
  the error and the eight result cells are reset first, the six inputs are parsed and
  validated, then each ratio is computed behind its own guard against a zero
  denominator. The inputs are read from the state the call started in, and of two
  updates of one cell the later one stands, as in the state React renders next.
\<close>

definition calculateRatios :: "app_state \<Rightarrow> app_state" where
  "calculateRatios s =
     (let s0 = s\<lparr> error := NoError,
                  currentRatio := None, quickRatio := None,
                  debtToEquityRatio := None, debtToAssetsRatio := None,
                  currentRatioInterpretation := Empty, quickRatioInterpretation := Empty,
                  debtToEquityInterpretation := Empty, debtToAssetsInterpretation := Empty \<rparr>;
          numCurrentAssets = parseFloat (currentAssets s);
          numCurrentLiabilities = parseFloat (currentLiabilities s);
          numTotalAssets = parseFloat (totalAssets s);
          numTotalLiabilities = parseFloat (totalLiabilities s);
          numShareholdersEquity = parseFloat (shareholdersEquity s);
          numInventory = parseFloat (inventory s)
      in
        if isNaN numCurrentAssets \<or> isNaN numCurrentLiabilities \<or> isNaN numTotalAssets \<or>
           isNaN numTotalLiabilities \<or> isNaN numShareholdersEquity \<or> isNaN numInventory
        then s0\<lparr> error := ValoresNumericosInvalidos \<rparr>
        else
          let s1 =
                (if js_strict_neq numCurrentLiabilities (Fin 0) then
                   (let calculatedCurrentRatio = js_div numCurrentAssets numCurrentLiabilities
                    in s0\<lparr> currentRatio := Some (toFixed2 calculatedCurrentRatio),
                            currentRatioInterpretation :=
                              getCurrentRatioInterpretation (JNumber calculatedCurrentRatio) \<rparr>)
                 else s0\<lparr> currentRatio := Some (Str ''N/A''),
                          currentRatioInterpretation := PasivosCirculantesEsCero \<rparr>);
              s2 =
                (if js_strict_neq numCurrentLiabilities (Fin 0) then
                   (let calculatedQuickRatio =
                          js_div (js_sub numCurrentAssets numInventory) numCurrentLiabilities
                    in s1\<lparr> quickRatio := Some (toFixed2 calculatedQuickRatio),
                            quickRatioInterpretation :=
                              getQuickRatioInterpretation (JNumber calculatedQuickRatio) \<rparr>)
                 else s1\<lparr> quickRatio := Some (Str ''N/A''),
                          quickRatioInterpretation := PasivosCirculantesEsCero \<rparr>);
              s3 =
                (if js_strict_neq numShareholdersEquity (Fin 0) then
                   (let calculatedDebtToEquityRatio =
                          js_div numTotalLiabilities numShareholdersEquity
                    in s2\<lparr> debtToEquityRatio := Some (toFixed2 calculatedDebtToEquityRatio),
                            debtToEquityInterpretation :=
                              getDebtToEquityInterpretation (JNumber calculatedDebtToEquityRatio) \<rparr>)
                 else s2\<lparr> debtToEquityRatio := Some (Str ''N/A''),
                          debtToEquityInterpretation := PatrimonioNetoEsCero \<rparr>)
          in
            if js_strict_neq numTotalAssets (Fin 0) then
              (let calculatedDebtToAssetsRatio = js_div numTotalLiabilities numTotalAssets
               in s3\<lparr> debtToAssetsRatio := Some (toFixed2 calculatedDebtToAssetsRatio),
                       debtToAssetsInterpretation :=
                         getDebtToAssetsInterpretation (JNumber calculatedDebtToAssetsRatio) \<rparr>)
            else s3\<lparr> debtToAssetsRatio := Some (Str ''N/A''),
                     debtToAssetsInterpretation := ActivosTotalesEsCero \<rparr>)"

text \<open>The condition of the validation \<^verbatim>\<open>if\<close> of \<^verbatim>\<open>calculateRatios\<close>.\<close>

definition validation_fails :: "app_state \<Rightarrow> bool" where
  "validation_fails s =
     (isNaN (parseFloat (currentAssets s)) \<or> isNaN (parseFloat (currentLiabilities s)) \<or>
      isNaN (parseFloat (totalAssets s)) \<or> isNaN (parseFloat (totalLiabilities s)) \<or>
      isNaN (parseFloat (shareholdersEquity s)) \<or> isNaN (parseFloat (inventory s)))"

text \<open>What \<^verbatim>\<open>calculateRatios\<close> reads (the six numeric fields) and what it writes
  (the four ratio cells, each with its interpretation, and the error).\<close>

definition inputs_of ::
  "app_state \<Rightarrow> string \<times> string \<times> string \<times> string \<times> string \<times> string" where
  "inputs_of s =
     (currentAssets s, currentLiabilities s, totalAssets s, totalLiabilities s,
      shareholdersEquity s, inventory s)"

definition results_of ::
  "app_state \<Rightarrow> (jstext option \<times> label) \<times> (jstext option \<times> label) \<times>
                (jstext option \<times> label) \<times> (jstext option \<times> label) \<times> error_text" where
  "results_of s =
     ((currentRatio s, currentRatioInterpretation s),
      (quickRatio s, quickRatioInterpretation s),
      (debtToEquityRatio s, debtToEquityInterpretation s),
      (debtToAssetsRatio s, debtToAssetsInterpretation s),
      error s)"

text \<open>The form after its six numeric fields were filled in, in the order of the page,
  and nothing was calculated yet.\<close>

definition form_with ::
  "string \<Rightarrow> string \<Rightarrow> string \<Rightarrow> string \<Rightarrow> string \<Rightarrow> string \<Rightarrow> app_state" where
  "form_with a l i t d e =
     initial_state\<lparr> currentAssets := a, currentLiabilities := l, inventory := i,
                    totalAssets := t, totalLiabilities := d, shareholdersEquity := e \<rparr>"

text \<open>The real value of the binary64 number nearest to \<open>x\<close>.\<close>

definition nearest64 :: "real \<Rightarrow> real" where
  "nearest64 x = value_of (number_value x)"

text \<open>The five labels of a classified ratio.\<close>

definition five_labels :: "label set" where
  "five_labels = {Excelente, Bueno, Regular, Malo, Pesimo}"

section \<open>Properties of the arithmetic\<close>

lemma isNaN_iff: "isNaN v = (v = NaN)"
  by (cases v) simp_all

lemma pow2_pos: "0 < pow2 k"
  by (simp add: pow2_def)

lemma round_half_even_nonneg: "0 \<le> y \<Longrightarrow> 0 \<le> round_half_even y"
  by (simp add: round_half_even_def Let_def)

lemma overflow_bound_pos: "0 < overflow_bound"
  by (simp add: overflow_bound_def)

lemma number_value_not_NaN: "\<not> isNaN (number_value x)"
  by (simp add: number_value_def Let_def)

lemma number_value_negative:
  assumes "x < 0"
  shows "number_value x = NegInf \<or> number_value x = NegZero
       \<or> (\<exists>y. y < 0 \<and> number_value x = Fin y)"
proof -
  define q where "q = pow2 ((if \<bar>x\<bar> < pow2 (- 1022) then - 1022 else floor_log2 \<bar>x\<bar>) - 52)"
  define n where "n = round_half_even (\<bar>x\<bar> / q)"
  have q: "0 < q"
    unfolding q_def by (rule pow2_pos)
  then have "0 \<le> \<bar>x\<bar> / q"
    by simp
  then have n: "0 \<le> n"
    unfolding n_def by (rule round_half_even_nonneg)
  have v: "number_value x =
      (if overflow_bound \<le> \<bar>x\<bar> then NegInf
       else if n = 0 then NegZero else Fin (- 1 * (of_int n * q)))"
    using assms by (simp add: number_value_def Let_def n_def q_def)
  show ?thesis
  proof (cases "overflow_bound \<le> \<bar>x\<bar> \<or> n = 0")
    case True
    then show ?thesis
      using v by auto
  next
    case False
    then have "0 < n"
      using n by simp
    then have "0 < real_of_int n * q"
      using q by simp
    then have "- 1 * (real_of_int n * q) < 0"
      by simp
    then show ?thesis
      using v False by auto
  qed
qed

lemma js_strict_neq_zero: "\<not> isNaN v \<Longrightarrow> js_strict_neq v (Fin 0) = (\<not> is_zero v)"
  by (cases v) (simp_all add: js_strict_neq_def is_zero_def)

lemma js_sub_not_NaN: "is_finite a \<Longrightarrow> is_finite b \<Longrightarrow> \<not> isNaN (js_sub a b)"
  by (cases a; cases b) (simp_all add: js_sub_def number_value_not_NaN)

lemma js_div_not_NaN:
  "\<not> isNaN a \<Longrightarrow> is_finite b \<Longrightarrow> \<not> is_zero b \<Longrightarrow> \<not> isNaN (js_div a b)"
  by (cases a; cases b)
     (simp_all add: js_div_def is_zero_def signed_inf_def signed_zero_def number_value_not_NaN)

lemma js_div_zero_divisor:
  "is_finite a \<Longrightarrow> is_zero b \<Longrightarrow> \<not> is_finite (js_div a b)"
  by (cases a; cases b) (simp_all add: js_div_def is_zero_def signed_inf_def)

lemma number_in_five_labels:
  assumes "\<not> isNaN v"
  shows "getCurrentRatioInterpretation (JNumber v) \<in> five_labels"
    and "getQuickRatioInterpretation (JNumber v) \<in> five_labels"
    and "getDebtToEquityInterpretation (JNumber v) \<in> five_labels"
    and "getDebtToAssetsInterpretation (JNumber v) \<in> five_labels"
  using assms
  by (simp_all add: five_labels_def getCurrentRatioInterpretation_def
        getQuickRatioInterpretation_def getDebtToEquityInterpretation_def
        getDebtToAssetsInterpretation_def)

lemma round_half_even_near: "\<bar>real_of_int (round_half_even y) - y\<bar> \<le> 1 / 2"
proof -
  define n where "n = \<lfloor>y\<rfloor>"
  have "real_of_int n \<le> y" and "y < real_of_int n + 1"
    unfolding n_def by linarith+
  then show ?thesis
    unfolding round_half_even_def Let_def n_def [symmetric]
    by (auto simp add: abs_le_iff) 
qed

lemma floor_log2_bounds:
  assumes "0 < x"
  shows "pow2 (floor_log2 x) \<le> x" and "x < pow2 (floor_log2 x + 1)"
proof -
  have "pow2 (floor_log2 x) \<le> x \<and> x < pow2 (floor_log2 x + 1)"
  proof (cases "1 \<le> x")
    case True
    define m where "m = \<lfloor>x\<rfloor>"
    have m: "0 < m"
      unfolding m_def using True by simp
    have b: "1 \<le> bitlen m"
      using m by (simp add: bitlen_alt_def)
    have lo: "2 ^ nat (bitlen m - 1) \<le> m" and hi: "m < 2 ^ nat (bitlen m)"
      using bitlen_bounds [OF m] by simp_all
    have "real_of_int (2 ^ nat (bitlen m - 1)) \<le> real_of_int m"
      using lo by (simp only: of_int_le_iff)
    also have "real_of_int m \<le> x"
      unfolding m_def by simp
    finally have l: "2 ^ nat (bitlen m - 1) \<le> x"
      by simp
    have "m + 1 \<le> 2 ^ nat (bitlen m)"
      using hi by simp
    then have "real_of_int (m + 1) \<le> real_of_int (2 ^ nat (bitlen m))"
      by (simp only: of_int_le_iff)
    moreover have "x < real_of_int (m + 1)"
      unfolding m_def by linarith
    ultimately have "x < real_of_int (2 ^ nat (bitlen m))"
      by (rule less_le_trans [rotated])
    then have h: "x < 2 ^ nat (bitlen m)"
      by simp
    show ?thesis
      using True b l h by (simp add: floor_log2_def pow2_def m_def)
  next
    case False
    define c where "c = \<lceil>1 / x\<rceil>"
    define k where "k = bitlen (c - 1)"
    have y: "1 < 1 / x"
      using False assms by simp
    then have c: "0 < c - 1"
      unfolding c_def by linarith
    have k: "1 \<le> k"
      unfolding k_def using c by (simp add: bitlen_alt_def)
    have lo: "2 ^ nat (k - 1) \<le> c - 1" and hi: "c - 1 < 2 ^ nat k"
      unfolding k_def using bitlen_bounds [OF c] by simp_all
    have "c \<le> 2 ^ nat k"
      using hi by simp
    then have "real_of_int c \<le> real_of_int (2 ^ nat k)"
      by (simp only: of_int_le_iff)
    moreover have "1 / x \<le> real_of_int c"
      unfolding c_def by (rule le_of_int_ceiling)
    ultimately have "1 / x \<le> real_of_int (2 ^ nat k)"
      by (rule order_trans [rotated])
    then have "1 / x \<le> 2 ^ nat k"
      by simp
    then have "1 \<le> 2 ^ nat k * x"
      using assms by (simp add: field_simps)
    then have l: "1 / 2 ^ nat k \<le> x"
      by (simp add: field_simps)
    have "real_of_int (2 ^ nat (k - 1)) \<le> real_of_int (c - 1)"
      using lo by (simp only: of_int_le_iff)
    moreover have "real_of_int (c - 1) < 1 / x"
      unfolding c_def by linarith
    ultimately have "real_of_int (2 ^ nat (k - 1)) < 1 / x"
      by (rule le_less_trans)
    then have "2 ^ nat (k - 1) < 1 / x"
      by simp
    then have "2 ^ nat (k - 1) * x < 1"
      using assms by (simp add: field_simps)
    then have h: "x < 1 / 2 ^ nat (k - 1)"
      by (simp add: field_simps)
    have f: "floor_log2 x = - k"
      using False by (simp add: floor_log2_def k_def c_def)
    show ?thesis
    proof (cases "k = 1")
      case True
      then show ?thesis
        using l h unfolding f by (simp add: pow2_def)
    next
      case False
      then have "1 < k"
        using k by simp
      then have "nat (- (- k + 1)) = nat (k - 1)" and "\<not> 0 \<le> - k + 1" and "\<not> 0 \<le> - k"
        by simp_all
      then show ?thesis
        using l h unfolding f pow2_def by simp
    qed
  qed
  then show "pow2 (floor_log2 x) \<le> x" and "x < pow2 (floor_log2 x + 1)"
    by simp_all
qed

text \<open>
  \<open>number_value\<close> rounds to a nearest value of the grid: for an exact value that is not
  zero and does not overflow, the result is finite and at most half a quantum away,
  where the quantum is \<open>2^(e - 52)\<close> for the binade \<open>e\<close> of the value, and \<open>2^-1074\<close>
  below \<open>2^-1022\<close>.
\<close>

lemma number_value_near:
  assumes "x \<noteq> 0" and "\<bar>x\<bar> < overflow_bound"
  shows "is_finite (number_value x)"
    and "\<bar>value_of (number_value x) - x\<bar>
           \<le> pow2 ((if \<bar>x\<bar> < pow2 (- 1022) then - 1022 else floor_log2 \<bar>x\<bar>) - 52) / 2"
proof -
  define q where "q = pow2 ((if \<bar>x\<bar> < pow2 (- 1022) then - 1022 else floor_log2 \<bar>x\<bar>) - 52)"
  define n where "n = round_half_even (\<bar>x\<bar> / q)"
  have q: "0 < q"
    unfolding q_def by (rule pow2_pos)
  have v: "number_value x =
      (if n = 0 then (if x < 0 then NegZero else Fin 0)
       else Fin ((if x < 0 then - 1 else 1) * (of_int n * q)))"
    using assms by (simp add: number_value_def Let_def n_def q_def)
  show "is_finite (number_value x)"
    unfolding v by simp
  have w: "value_of (number_value x) = (if x < 0 then - 1 else 1) * (of_int n * q)"
    unfolding v by simp
  have "\<bar>real_of_int n - \<bar>x\<bar> / q\<bar> \<le> 1 / 2"
    unfolding n_def by (rule round_half_even_near)
  then have "\<bar>real_of_int n - \<bar>x\<bar> / q\<bar> * q \<le> 1 / 2 * q"
    using q by (simp only: mult_le_cancel_right) simp
  moreover have "\<bar>real_of_int n - \<bar>x\<bar> / q\<bar> * q = \<bar>real_of_int n * q - \<bar>x\<bar>\<bar>"
  proof -
    have "\<bar>real_of_int n - \<bar>x\<bar> / q\<bar> * q = \<bar>(real_of_int n - \<bar>x\<bar> / q) * q\<bar>"
      using q by (simp add: abs_mult)
    also have "(real_of_int n - \<bar>x\<bar> / q) * q = real_of_int n * q - \<bar>x\<bar>"
      using q by (simp add: left_diff_distrib)
    finally show ?thesis .
  qed
  ultimately have d: "\<bar>real_of_int n * q - \<bar>x\<bar>\<bar> \<le> q / 2"
    by simp
  have "\<bar>value_of (number_value x) - x\<bar> = \<bar>real_of_int n * q - \<bar>x\<bar>\<bar>"
    unfolding w by (cases "x < 0") simp_all
  then show "\<bar>value_of (number_value x) - x\<bar>
           \<le> pow2 ((if \<bar>x\<bar> < pow2 (- 1022) then - 1022 else floor_log2 \<bar>x\<bar>) - 52) / 2"
    using d unfolding q_def by simp
qed

section \<open>Evaluating the arithmetic\<close>

lemma bitlen_numeral: "bitlen (numeral k) = bitlen (numeral k div 2) + 1"
  by (subst compute_bitlen) simp

lemma bitlen_one: "bitlen 1 = 1"
  by (subst compute_bitlen) simp

lemmas number_eval = number_value_def floor_log2_def pow2_def round_half_even_def
  overflow_bound_def Let_def bitlen_numeral bitlen_one

lemmas js_eval = js_div_def js_sub_def js_lt_def js_gt_def js_le_def js_ge_def
  js_strict_neq_def signed_zero_def signed_inf_def is_zero_def

lemmas fixed_eval = toFixed2_def fixed2_text_def fixed2_digits_def decimal.simps
  digit_char_def

lemmas parse_eval = parseFloat_def strip_sign_def is_white_space_def is_digit_def
  digits_value_def digit_value_def scale10_def exponent_part_def

lemma binary_literals:
  "number_value (3 / 10) = Fin (5404319552844595 / 18014398509481984)"
  "number_value (7 / 10) = Fin (3152519739159347 / 4503599627370496)"
  "number_value (9 / 10) = Fin (8106479329266893 / 9007199254740992)"
  by (simp_all add: number_eval)

lemma exact_literals:
  "number_value (1 / 2) = Fin (1 / 2)"
  "number_value 1 = Fin 1"
  "number_value (3 / 2) = Fin (3 / 2)"
  "number_value 2 = Fin 2"
  "number_value 5 = Fin 5"
  by (simp_all add: number_eval)

lemma nearest64_literals:
  "nearest64 (3 / 10) = 5404319552844595 / 18014398509481984"
  "nearest64 (7 / 10) = 3152519739159347 / 4503599627370496"
  "nearest64 (9 / 10) = 8106479329266893 / 9007199254740992"
  by (simp_all add: nearest64_def binary_literals)

lemma js_compare_Fin:
  "js_lt (Fin x) (Fin y) = (x < y)"
  "js_gt (Fin x) (Fin y) = (y < x)"
  "js_le (Fin x) (Fin y) = (x \<le> y)"
  "js_ge (Fin x) (Fin y) = (y \<le> x)"
  by (auto simp add: js_lt_def js_gt_def js_le_def js_ge_def)

section \<open>The buckets of the four classifications\<close>

lemma current_buckets:
  "(getCurrentRatioInterpretation (JNumber (Fin x)) = Excelente) = (2 < x)"
  "(getCurrentRatioInterpretation (JNumber (Fin x)) = Bueno) = (3 / 2 \<le> x \<and> x \<le> 2)"
  "(getCurrentRatioInterpretation (JNumber (Fin x)) = Regular) = (1 \<le> x \<and> x < 3 / 2)"
  "(getCurrentRatioInterpretation (JNumber (Fin x)) = Malo) = (1 / 2 \<le> x \<and> x < 1)"
  "(getCurrentRatioInterpretation (JNumber (Fin x)) = Pesimo) = (x < 1 / 2)"
  by (auto simp add: getCurrentRatioInterpretation_def js_compare_Fin)

lemma quick_buckets:
  "(getQuickRatioInterpretation (JNumber (Fin x)) = Excelente) = (3 / 2 < x)"
  "(getQuickRatioInterpretation (JNumber (Fin x)) = Bueno) = (1 \<le> x \<and> x \<le> 3 / 2)"
  "(getQuickRatioInterpretation (JNumber (Fin x)) = Regular) = (nearest64 (7 / 10) \<le> x \<and> x < 1)"
  "(getQuickRatioInterpretation (JNumber (Fin x)) = Malo) =
     (nearest64 (3 / 10) \<le> x \<and> x < nearest64 (7 / 10))"
  "(getQuickRatioInterpretation (JNumber (Fin x)) = Pesimo) = (x < nearest64 (3 / 10))"
  by (auto simp add: getQuickRatioInterpretation_def js_compare_Fin binary_literals
        nearest64_literals)

lemma debtToEquity_buckets:
  "(getDebtToEquityInterpretation (JNumber (Fin x)) = Excelente) = (x < 1 / 2)"
  "(getDebtToEquityInterpretation (JNumber (Fin x)) = Bueno) = (1 / 2 \<le> x \<and> x \<le> 1)"
  "(getDebtToEquityInterpretation (JNumber (Fin x)) = Regular) = (1 < x \<and> x \<le> 2)"
  "(getDebtToEquityInterpretation (JNumber (Fin x)) = Malo) = (2 < x \<and> x \<le> 5)"
  "(getDebtToEquityInterpretation (JNumber (Fin x)) = Pesimo) = (5 < x)"
  by (auto simp add: getDebtToEquityInterpretation_def js_compare_Fin)

lemma debtToAssets_buckets:
  "(getDebtToAssetsInterpretation (JNumber (Fin x)) = Excelente) = (x < nearest64 (3 / 10))"
  "(getDebtToAssetsInterpretation (JNumber (Fin x)) = Bueno) =
     (nearest64 (3 / 10) \<le> x \<and> x \<le> 1 / 2)"
  "(getDebtToAssetsInterpretation (JNumber (Fin x)) = Regular) =
     (1 / 2 < x \<and> x \<le> nearest64 (7 / 10))"
  "(getDebtToAssetsInterpretation (JNumber (Fin x)) = Malo) =
     (nearest64 (7 / 10) < x \<and> x \<le> nearest64 (9 / 10))"
  "(getDebtToAssetsInterpretation (JNumber (Fin x)) = Pesimo) = (nearest64 (9 / 10) < x)"
  by (auto simp add: getDebtToAssetsInterpretation_def js_compare_Fin binary_literals
        nearest64_literals)


section \<open>What calculateRatios writes\<close>

lemma results_of_calculateRatios:
  "results_of (calculateRatios s) =
     (if validation_fails s
      then ((None, Empty), (None, Empty), (None, Empty), (None, Empty),
            ValoresNumericosInvalidos)
      else
       ((if js_strict_neq (parseFloat (currentLiabilities s)) (Fin 0)
         then (Some (toFixed2 (js_div (parseFloat (currentAssets s))
                                      (parseFloat (currentLiabilities s)))),
               getCurrentRatioInterpretation
                 (JNumber (js_div (parseFloat (currentAssets s))
                                  (parseFloat (currentLiabilities s)))))
         else (Some (Str ''N/A''), PasivosCirculantesEsCero)),
        (if js_strict_neq (parseFloat (currentLiabilities s)) (Fin 0)
         then (Some (toFixed2 (js_div (js_sub (parseFloat (currentAssets s))
                                              (parseFloat (inventory s)))
                                      (parseFloat (currentLiabilities s)))),
               getQuickRatioInterpretation
                 (JNumber (js_div (js_sub (parseFloat (currentAssets s))
                                          (parseFloat (inventory s)))
                                  (parseFloat (currentLiabilities s)))))
         else (Some (Str ''N/A''), PasivosCirculantesEsCero)),
        (if js_strict_neq (parseFloat (shareholdersEquity s)) (Fin 0)
         then (Some (toFixed2 (js_div (parseFloat (totalLiabilities s))
                                      (parseFloat (shareholdersEquity s)))),
               getDebtToEquityInterpretation
                 (JNumber (js_div (parseFloat (totalLiabilities s))
                                  (parseFloat (shareholdersEquity s)))))
         else (Some (Str ''N/A''), PatrimonioNetoEsCero)),
        (if js_strict_neq (parseFloat (totalAssets s)) (Fin 0)
         then (Some (toFixed2 (js_div (parseFloat (totalLiabilities s))
                                      (parseFloat (totalAssets s)))),
               getDebtToAssetsInterpretation
                 (JNumber (js_div (parseFloat (totalLiabilities s))
                                  (parseFloat (totalAssets s)))))
         else (Some (Str ''N/A''), ActivosTotalesEsCero)),
        NoError))"
  unfolding results_of_def calculateRatios_def validation_fails_def Let_def
  by simp

lemma inputs_of_calculateRatios: "inputs_of (calculateRatios s) = inputs_of s"
  unfolding inputs_of_def calculateRatios_def Let_def by simp

lemma calculateRatios_untouched:
  "companyTicker (calculateRatios s) = companyTicker s"
  "selectedCurrency (calculateRatios s) = selectedCurrency s"
  "reportDate (calculateRatios s) = reportDate s"
  "app_state.more (calculateRatios s) = app_state.more s"
  unfolding calculateRatios_def Let_def by simp_all

lemma validation_fails_inputs:
  "inputs_of s = inputs_of s' \<Longrightarrow> validation_fails s = validation_fails s'"
  unfolding inputs_of_def validation_fails_def by simp

lemma results_depend_on_inputs:
  assumes "inputs_of s = inputs_of s'"
  shows "results_of (calculateRatios s) = results_of (calculateRatios s')"
proof -
  have v: "validation_fails s = validation_fails s'"
    using assms by (rule validation_fails_inputs)
  have f: "currentAssets s = currentAssets s'" "currentLiabilities s = currentLiabilities s'"
    "totalAssets s = totalAssets s'" "totalLiabilities s = totalLiabilities s'"
    "shareholdersEquity s = shareholdersEquity s'" "inventory s = inventory s'"
    using assms unfolding inputs_of_def by simp_all
  show ?thesis
    unfolding results_of_calculateRatios v f ..
qed

lemma calculateRatios_twice: "calculateRatios (calculateRatios s) = calculateRatios s"
proof (rule app_state.equality)
  let ?t = "calculateRatios s"
  have i: "inputs_of (calculateRatios ?t) = inputs_of ?t"
    by (rule inputs_of_calculateRatios)
  have r: "results_of (calculateRatios ?t) = results_of ?t"
    by (rule results_depend_on_inputs [OF inputs_of_calculateRatios])
  show "currentAssets (calculateRatios ?t) = currentAssets ?t"
    and "currentLiabilities (calculateRatios ?t) = currentLiabilities ?t"
    and "totalAssets (calculateRatios ?t) = totalAssets ?t"
    and "totalLiabilities (calculateRatios ?t) = totalLiabilities ?t"
    and "shareholdersEquity (calculateRatios ?t) = shareholdersEquity ?t"
    and "inventory (calculateRatios ?t) = inventory ?t"
    using i unfolding inputs_of_def by simp_all
  show "currentRatio (calculateRatios ?t) = currentRatio ?t"
    and "currentRatioInterpretation (calculateRatios ?t) = currentRatioInterpretation ?t"
    and "quickRatio (calculateRatios ?t) = quickRatio ?t"
    and "quickRatioInterpretation (calculateRatios ?t) = quickRatioInterpretation ?t"
    and "debtToEquityRatio (calculateRatios ?t) = debtToEquityRatio ?t"
    and "debtToEquityInterpretation (calculateRatios ?t) = debtToEquityInterpretation ?t"
    and "debtToAssetsRatio (calculateRatios ?t) = debtToAssetsRatio ?t"
    and "debtToAssetsInterpretation (calculateRatios ?t) = debtToAssetsInterpretation ?t"
    and "error (calculateRatios ?t) = error ?t"
    using r unfolding results_of_def by simp_all
  show "companyTicker (calculateRatios ?t) = companyTicker ?t"
    and "selectedCurrency (calculateRatios ?t) = selectedCurrency ?t"
    and "reportDate (calculateRatios ?t) = reportDate ?t"
    and "app_state.more (calculateRatios ?t) = app_state.more ?t"
    by (rule calculateRatios_untouched)+
qed



section \<open>Determinism and independence of earlier results\<close>

text \<open>
  Claim C8. \<^verbatim>\<open>calculateRatios\<close> is deterministic and stateless. Two states of the
  form that hold the same six inputs, whatever results and error an earlier call left in
  them, get the same results and the same error; the call leaves the inputs as they
  were, and calling it a second time changes nothing.
\<close>

theorem calculateRatios_deterministic_stateless:
  assumes "inputs_of s = inputs_of s'"
  shows "results_of (calculateRatios s) = results_of (calculateRatios s')
       \<and> inputs_of (calculateRatios s) = inputs_of s
       \<and> calculateRatios (calculateRatios s) = calculateRatios s"
  using results_depend_on_inputs [OF assms] inputs_of_calculateRatios [of s]
    calculateRatios_twice [of s]
  by simp

theorem calculateRatios_deterministic_stateless_witness:
  "inputs_of (form_with ''150'' ''100'' ''30'' ''500'' ''400'' ''100'') =
   inputs_of ((form_with ''150'' ''100'' ''30'' ''500'' ''400'' ''100'')
                \<lparr> currentRatio := Some (Str ''9.99''), currentRatioInterpretation := Pesimo,
                   error := ValoresNumericosInvalidos \<rparr>)
 \<and> results_of (calculateRatios (form_with ''150'' ''100'' ''30'' ''500'' ''400'' ''100'')) =
   results_of (calculateRatios
     ((form_with ''150'' ''100'' ''30'' ''500'' ''400'' ''100'')
        \<lparr> currentRatio := Some (Str ''9.99''), currentRatioInterpretation := Pesimo,
           error := ValoresNumericosInvalidos \<rparr>))"
  using calculateRatios_deterministic_stateless
    [of "form_with ''150'' ''100'' ''30'' ''500'' ''400'' ''100''"
        "(form_with ''150'' ''100'' ''30'' ''500'' ''400'' ''100'')
           \<lparr> currentRatio := Some (Str ''9.99''), currentRatioInterpretation := Pesimo,
              error := ValoresNumericosInvalidos \<rparr>"]
  by (simp add: inputs_of_def)

section \<open>Totality of the classifications\<close>


section \<open>Evaluating the parser and the printer\<close>

lemma digits_value_zeros:
  "foldl (\<lambda>n c. 10 * n + digit_value c) a (replicate k CHR ''0'') = a * 10 ^ k"
  by (induction k arbitrary: a) (simp_all add: digit_value_def)

lemma digits_value_overflow: "digits_value (CHR ''1'' # replicate 309 CHR ''0'') = 10 ^ 309"
  unfolding digits_value_def using digits_value_zeros [of 1 309]
  by (simp add: digit_value_def)

lemma parse_overflow: "parseFloat (CHR ''1'' # replicate 309 CHR ''0'') = PosInf"
  by (simp add: parseFloat_def strip_sign_def is_white_space_def is_digit_def
        takeWhile_replicate dropWhile_replicate digits_value_overflow
        scale10_def exponent_part_def number_value_def overflow_bound_def
        take_Cons' Let_def)

lemma parse_Infinity: "parseFloat ''Infinity'' = PosInf"
  by (simp add: parseFloat_def strip_sign_def is_white_space_def)

lemma parse_examples:
  "parseFloat ''0'' = Fin 0"
  "parseFloat ''1'' = Fin 1"
  "parseFloat ''30'' = Fin 30"
  "parseFloat ''100'' = Fin 100"
  "parseFloat ''150'' = Fin 150"
  "parseFloat ''250'' = Fin 250"
  "parseFloat ''400'' = Fin 400"
  "parseFloat ''500'' = Fin 500"
  "parseFloat ''-100'' = Fin (- 100)"
  "parseFloat ''-1000'' = Fin (- 1000)"
  "parseFloat ''2.004'' = Fin (4512606826625237 / 2251799813685248)"
  "parseFloat ''2.00'' = Fin 2"
  "parseFloat ''-0'' = NegZero"
  "parseFloat [] = NaN"
  by (simp_all add: parse_eval number_eval signed_zero_def)

lemma quotient_examples:
  "js_div (js_sub (Fin 100) (Fin 30)) (Fin 100) = Fin (3152519739159347 / 4503599627370496)"
  "js_div (Fin 150) (Fin 100) = Fin (3 / 2)"
  "js_div (js_sub (Fin 150) (Fin 30)) (Fin 100) = Fin (5404319552844595 / 4503599627370496)"
  "js_div (Fin 250) (Fin 100) = Fin (5 / 2)"
  "js_div (Fin 400) (Fin 500) = Fin (3602879701896397 / 4503599627370496)"
  "js_div (Fin 400) (Fin 100) = Fin 4"
  "js_div (Fin 400) (Fin (- 100)) = Fin (- 4)"
  "js_div (Fin (4512606826625237 / 2251799813685248)) (Fin 1) =
     Fin (4512606826625237 / 2251799813685248)"
  by (simp_all add: js_eval number_eval)

lemma toFixed2_examples:
  "toFixed2 (Fin (3152519739159347 / 4503599627370496)) = Str ''0.70''"
  "toFixed2 (Fin (3 / 2)) = Str ''1.50''"
  "toFixed2 (Fin (5 / 2)) = Str ''2.50''"
  "toFixed2 (Fin (3602879701896397 / 4503599627370496)) = Str ''0.80''"
  "toFixed2 (Fin (4512606826625237 / 2251799813685248)) = Str ''2.00''"
  "toFixed2 (Fin (- 4)) = Str ''-4.00''"
  "toFixed2 PosInf = Str ''Infinity''"
  "toFixed2 (Fin 4) = Str ''4.00''"
  "toFixed2 (Fin (5404319552844595 / 4503599627370496)) = Str ''1.20''"
  "toFixed2 NegZero = Str ''0.00''"
  by (simp_all add: fixed_eval)

lemma form_with_fields:
  "currentAssets (form_with a l i t d e) = a"
  "currentLiabilities (form_with a l i t d e) = l"
  "inventory (form_with a l i t d e) = i"
  "totalAssets (form_with a l i t d e) = t"
  "totalLiabilities (form_with a l i t d e) = d"
  "shareholdersEquity (form_with a l i t d e) = e"
  by (simp_all add: form_with_def)

lemma is_finite_not_NaN: "is_finite v \<Longrightarrow> \<not> isNaN v"
  by (cases v) simp_all

lemma results_finite:
  assumes "parseFloat (currentAssets s) = a"
    and "parseFloat (currentLiabilities s) = l"
    and "parseFloat (inventory s) = i"
    and "parseFloat (totalAssets s) = t"
    and "parseFloat (totalLiabilities s) = d"
    and "parseFloat (shareholdersEquity s) = e"
    and "is_finite a" and "is_finite l" and "is_finite i"
    and "is_finite t" and "is_finite d" and "is_finite e"
  shows "results_of (calculateRatios s) =
     ((if is_zero l then (Some (Str ''N/A''), PasivosCirculantesEsCero)
       else (Some (toFixed2 (js_div a l)),
             getCurrentRatioInterpretation (JNumber (js_div a l)))),
      (if is_zero l then (Some (Str ''N/A''), PasivosCirculantesEsCero)
       else (Some (toFixed2 (js_div (js_sub a i) l)),
             getQuickRatioInterpretation (JNumber (js_div (js_sub a i) l)))),
      (if is_zero e then (Some (Str ''N/A''), PatrimonioNetoEsCero)
       else (Some (toFixed2 (js_div d e)),
             getDebtToEquityInterpretation (JNumber (js_div d e)))),
      (if is_zero t then (Some (Str ''N/A''), ActivosTotalesEsCero)
       else (Some (toFixed2 (js_div d t)),
             getDebtToAssetsInterpretation (JNumber (js_div d t)))),
      NoError)"
proof -
  have n: "\<not> isNaN a" "\<not> isNaN l" "\<not> isNaN i" "\<not> isNaN t" "\<not> isNaN d" "\<not> isNaN e"
    using assms(7-12) by (simp_all add: is_finite_not_NaN)
  show ?thesis
    unfolding results_of_calculateRatios validation_fails_def assms(1-6)
    using n by (simp add: js_strict_neq_zero)
qed

lemma results_Fin:
  assumes "parseFloat (currentAssets s) = Fin a"
    and "parseFloat (currentLiabilities s) = Fin l"
    and "parseFloat (inventory s) = Fin i"
    and "parseFloat (totalAssets s) = Fin t"
    and "parseFloat (totalLiabilities s) = Fin d"
    and "parseFloat (shareholdersEquity s) = Fin e"
  shows "results_of (calculateRatios s) =
     ((if l = 0 then (Some (Str ''N/A''), PasivosCirculantesEsCero)
       else (Some (toFixed2 (js_div (Fin a) (Fin l))),
             getCurrentRatioInterpretation (JNumber (js_div (Fin a) (Fin l))))),
      (if l = 0 then (Some (Str ''N/A''), PasivosCirculantesEsCero)
       else (Some (toFixed2 (js_div (js_sub (Fin a) (Fin i)) (Fin l))),
             getQuickRatioInterpretation (JNumber (js_div (js_sub (Fin a) (Fin i)) (Fin l))))),
      (if e = 0 then (Some (Str ''N/A''), PatrimonioNetoEsCero)
       else (Some (toFixed2 (js_div (Fin d) (Fin e))),
             getDebtToEquityInterpretation (JNumber (js_div (Fin d) (Fin e))))),
      (if t = 0 then (Some (Str ''N/A''), ActivosTotalesEsCero)
       else (Some (toFixed2 (js_div (Fin d) (Fin t))),
             getDebtToAssetsInterpretation (JNumber (js_div (Fin d) (Fin t))))),
      NoError)"
  using results_finite [OF assms] by (simp add: is_zero_def)

section \<open>The worked examples\<close>








section \<open>Validation\<close>

text \<open>
  Claim C2, as amended. \<^verbatim>\<open>calculateRatios\<close> sets the validation message and leaves
  the four ratio cells empty if and only if at least one of the six fields parses to
  \<open>NaN\<close>; otherwise the error is empty and all four ratio cells are filled. A field
  that parses to an infinity is not rejected.
\<close>

theorem validation_rejects_exactly_NaN:
  "(error (calculateRatios s) = ValoresNumericosInvalidos
      \<and> currentRatio (calculateRatios s) = None \<and> quickRatio (calculateRatios s) = None
      \<and> debtToEquityRatio (calculateRatios s) = None
      \<and> debtToAssetsRatio (calculateRatios s) = None) =
   (parseFloat (currentAssets s) = NaN \<or> parseFloat (currentLiabilities s) = NaN
      \<or> parseFloat (totalAssets s) = NaN \<or> parseFloat (totalLiabilities s) = NaN
      \<or> parseFloat (shareholdersEquity s) = NaN \<or> parseFloat (inventory s) = NaN)
 \<and> (error (calculateRatios s) = NoError
      \<and> currentRatio (calculateRatios s) \<noteq> None \<and> quickRatio (calculateRatios s) \<noteq> None
      \<and> debtToEquityRatio (calculateRatios s) \<noteq> None
      \<and> debtToAssetsRatio (calculateRatios s) \<noteq> None) =
   (parseFloat (currentAssets s) \<noteq> NaN \<and> parseFloat (currentLiabilities s) \<noteq> NaN
      \<and> parseFloat (totalAssets s) \<noteq> NaN \<and> parseFloat (totalLiabilities s) \<noteq> NaN
      \<and> parseFloat (shareholdersEquity s) \<noteq> NaN \<and> parseFloat (inventory s) \<noteq> NaN)"
proof (cases "validation_fails s")
  case True
  then have "results_of (calculateRatios s) =
      ((None, Empty), (None, Empty), (None, Empty), (None, Empty), ValoresNumericosInvalidos)"
    by (simp add: results_of_calculateRatios)
  then show ?thesis
    using True unfolding results_of_def validation_fails_def isNaN_iff by simp
next
  case False
  then have "error (calculateRatios s) = NoError
      \<and> currentRatio (calculateRatios s) \<noteq> None \<and> quickRatio (calculateRatios s) \<noteq> None
      \<and> debtToEquityRatio (calculateRatios s) \<noteq> None
      \<and> debtToAssetsRatio (calculateRatios s) \<noteq> None"
    using results_of_calculateRatios [of s] unfolding results_of_def
    by (simp split: if_splits)
  then show ?thesis
    using False unfolding validation_fails_def isNaN_iff by simp
qed

theorem validation_rejects_exactly_NaN_witness:
  "parseFloat (currentAssets initial_state) = NaN
 \<and> error (calculateRatios initial_state) = ValoresNumericosInvalidos
 \<and> currentRatio (calculateRatios initial_state) = None
 \<and> quickRatio (calculateRatios initial_state) = None
 \<and> debtToEquityRatio (calculateRatios initial_state) = None
 \<and> debtToAssetsRatio (calculateRatios initial_state) = None
 \<and> error (calculateRatios (form_with ''Infinity'' ''1'' ''1'' ''1'' ''1'' ''1'')) = NoError
 \<and> currentRatio (calculateRatios (form_with ''Infinity'' ''1'' ''1'' ''1'' ''1'' ''1'')) \<noteq> None"
  using validation_rejects_exactly_NaN [of initial_state]
    validation_rejects_exactly_NaN [of "form_with ''Infinity'' ''1'' ''1'' ''1'' ''1'' ''1''"]
  by (simp add: initial_state_def form_with_fields parse_examples parse_Infinity)

text \<open>
  A field of 310 digits is stored as typed, parses to \<open>Infinity\<close>, which is not a finite
  number, and passes the validation: no error is set, and the current ratio is computed
  from it and shown as \<^verbatim>\<open>Infinity\<close>.
\<close>

theorem overflowing_field_passes_validation:
  "cleanedForStorage (CHR ''1'' # replicate 309 CHR ''0'') = CHR ''1'' # replicate 309 CHR ''0''
 \<and> parseFloat (CHR ''1'' # replicate 309 CHR ''0'') = PosInf
 \<and> error (calculateRatios
      (form_with (CHR ''1'' # replicate 309 CHR ''0'') ''1'' ''1'' ''1'' ''1'' ''1'')) = NoError
 \<and> currentRatio (calculateRatios
      (form_with (CHR ''1'' # replicate 309 CHR ''0'') ''1'' ''1'' ''1'' ''1'' ''1'')) =
    Some (Str ''Infinity'')
 \<and> currentRatioInterpretation (calculateRatios
      (form_with (CHR ''1'' # replicate 309 CHR ''0'') ''1'' ''1'' ''1'' ''1'' ''1'')) = Excelente"
proof -
  have c: "cleanedForStorage (CHR ''1'' # replicate 309 CHR ''0'') =
      CHR ''1'' # replicate 309 CHR ''0''"
    by (simp add: cleanedForStorage_def)
  have v: "\<not> validation_fails
      (form_with (CHR ''1'' # replicate 309 CHR ''0'') ''1'' ''1'' ''1'' ''1'' ''1'')"
    by (simp add: validation_fails_def form_with_fields parse_examples parse_overflow)
  have x: "getCurrentRatioInterpretation (JNumber PosInf) = Excelente"
    by (simp add: getCurrentRatioInterpretation_def js_gt_def js_lt_def)
  have d: "js_div PosInf (Fin 1) = PosInf"
    by (simp add: js_div_def signed_inf_def)
  show ?thesis
    using results_of_calculateRatios
      [of "form_with (CHR ''1'' # replicate 309 CHR ''0'') ''1'' ''1'' ''1'' ''1'' ''1''"]
      v c x d
    unfolding results_of_def
    by (simp add: form_with_fields parse_examples parse_overflow js_strict_neq_def
          toFixed2_examples)
qed

section \<open>The boundary of the current ratio\<close>

text \<open>
  Claim C5. When all six fields are finite and the current ratio, the quotient the
  program computes, is exactly \<open>1.5\<close>, it is shown as \<^verbatim>\<open>1.50\<close> and its label is
  \<open>Bueno\<close> (good), not \<open>Regular\<close> (fair).
\<close>

theorem current_ratio_boundary:
  assumes "parseFloat (currentAssets s) = a"
    and "parseFloat (currentLiabilities s) = l"
    and "parseFloat (inventory s) = i"
    and "parseFloat (totalAssets s) = t"
    and "parseFloat (totalLiabilities s) = d"
    and "parseFloat (shareholdersEquity s) = e"
    and "is_finite a" and "is_finite l" and "is_finite i"
    and "is_finite t" and "is_finite d" and "is_finite e"
    and "js_div a l = Fin (3 / 2)"
  shows "currentRatio (calculateRatios s) = Some (Str ''1.50'')
       \<and> currentRatioInterpretation (calculateRatios s) = Bueno"
proof -
  have "is_finite (js_div a l)"
    unfolding assms(13) by simp
  then have z: "\<not> is_zero l"
    using js_div_zero_divisor [OF assms(7)] by blast
  have "getCurrentRatioInterpretation (JNumber (Fin (3 / 2))) = Bueno"
    by (simp add: current_buckets)
  then show ?thesis
    using results_finite [OF assms(1-12)] z toFixed2_examples(2)
    unfolding results_of_def assms(13) by simp
qed

theorem current_ratio_boundary_witness:
  "parseFloat (currentAssets (form_with ''150'' ''100'' ''30'' ''500'' ''400'' ''100'')) = Fin 150
 \<and> parseFloat (currentLiabilities (form_with ''150'' ''100'' ''30'' ''500'' ''400'' ''100'')) = Fin 100
 \<and> parseFloat (inventory (form_with ''150'' ''100'' ''30'' ''500'' ''400'' ''100'')) = Fin 30
 \<and> parseFloat (totalAssets (form_with ''150'' ''100'' ''30'' ''500'' ''400'' ''100'')) = Fin 500
 \<and> parseFloat (totalLiabilities (form_with ''150'' ''100'' ''30'' ''500'' ''400'' ''100'')) = Fin 400
 \<and> parseFloat (shareholdersEquity (form_with ''150'' ''100'' ''30'' ''500'' ''400'' ''100'')) = Fin 100
 \<and> is_finite (Fin 150) \<and> is_finite (Fin 100) \<and> is_finite (Fin 30)
 \<and> is_finite (Fin 500) \<and> is_finite (Fin 400)
 \<and> js_div (Fin 150) (Fin 100) = Fin (3 / 2)
 \<and> currentRatio (calculateRatios (form_with ''150'' ''100'' ''30'' ''500'' ''400'' ''100'')) = Some (Str ''1.50'')
 \<and> currentRatioInterpretation (calculateRatios (form_with ''150'' ''100'' ''30'' ''500'' ''400'' ''100'')) = Bueno"
  using current_ratio_boundary
    [of "form_with ''150'' ''100'' ''30'' ''500'' ''400'' ''100''"
        "Fin 150" "Fin 100" "Fin 30" "Fin 500" "Fin 400" "Fin 100"]
    quotient_examples(2)
  by (simp add: form_with_fields parse_examples)

section \<open>Zero denominators\<close>

text \<open>
  Claim C4. For six finite fields a zero denominator is not an error and blocks no
  other ratio. The error stays empty. With current liabilities a zero (of either sign)
  the current and the quick ratio are \<^verbatim>\<open>N/A\<close> with the text that current liabilities
  is zero; with shareholders' equity a zero the debt-to-equity ratio is \<^verbatim>\<open>N/A\<close> with
  the text that equity is zero; with total assets a zero the debt-to-assets ratio is
  \<^verbatim>\<open>N/A\<close> with the text that total assets is zero. Each ratio depends on its own
  denominator only: where that is not a zero, the cell holds the printed quotient and
  the label is one of the five.
\<close>

theorem zero_denominator_per_ratio:
  assumes "parseFloat (currentAssets s) = a"
    and "parseFloat (currentLiabilities s) = l"
    and "parseFloat (inventory s) = i"
    and "parseFloat (totalAssets s) = t"
    and "parseFloat (totalLiabilities s) = d"
    and "parseFloat (shareholdersEquity s) = e"
    and "is_finite a" and "is_finite l" and "is_finite i"
    and "is_finite t" and "is_finite d" and "is_finite e"
  shows "error (calculateRatios s) = NoError
       \<and> (currentRatio (calculateRatios s), currentRatioInterpretation (calculateRatios s)) =
           (if is_zero l then (Some (Str ''N/A''), PasivosCirculantesEsCero)
            else (Some (toFixed2 (js_div a l)),
                  getCurrentRatioInterpretation (JNumber (js_div a l))))
       \<and> (quickRatio (calculateRatios s), quickRatioInterpretation (calculateRatios s)) =
           (if is_zero l then (Some (Str ''N/A''), PasivosCirculantesEsCero)
            else (Some (toFixed2 (js_div (js_sub a i) l)),
                  getQuickRatioInterpretation (JNumber (js_div (js_sub a i) l))))
       \<and> (debtToEquityRatio (calculateRatios s), debtToEquityInterpretation (calculateRatios s)) =
           (if is_zero e then (Some (Str ''N/A''), PatrimonioNetoEsCero)
            else (Some (toFixed2 (js_div d e)),
                  getDebtToEquityInterpretation (JNumber (js_div d e))))
       \<and> (debtToAssetsRatio (calculateRatios s), debtToAssetsInterpretation (calculateRatios s)) =
           (if is_zero t then (Some (Str ''N/A''), ActivosTotalesEsCero)
            else (Some (toFixed2 (js_div d t)),
                  getDebtToAssetsInterpretation (JNumber (js_div d t))))
       \<and> (\<not> is_zero l \<longrightarrow> currentRatioInterpretation (calculateRatios s) \<in> five_labels
                    \<and> quickRatioInterpretation (calculateRatios s) \<in> five_labels)
       \<and> (\<not> is_zero e \<longrightarrow> debtToEquityInterpretation (calculateRatios s) \<in> five_labels)
       \<and> (\<not> is_zero t \<longrightarrow> debtToAssetsInterpretation (calculateRatios s) \<in> five_labels)"
proof -
  note r = results_finite [OF assms, unfolded results_of_def prod.inject]
  note n = is_finite_not_NaN [OF assms(7)] is_finite_not_NaN [OF assms(11)]
  have c: "\<not> is_zero l \<Longrightarrow> getCurrentRatioInterpretation (JNumber (js_div a l)) \<in> five_labels"
    by (rule number_in_five_labels, rule js_div_not_NaN) (simp_all add: n assms)
  have q: "\<not> is_zero l \<Longrightarrow>
      getQuickRatioInterpretation (JNumber (js_div (js_sub a i) l)) \<in> five_labels"
    by (rule number_in_five_labels, rule js_div_not_NaN)
       (simp_all add: js_sub_not_NaN assms)
  have de: "\<not> is_zero e \<Longrightarrow> getDebtToEquityInterpretation (JNumber (js_div d e)) \<in> five_labels"
    by (rule number_in_five_labels, rule js_div_not_NaN) (simp_all add: n assms)
  have da: "\<not> is_zero t \<Longrightarrow> getDebtToAssetsInterpretation (JNumber (js_div d t)) \<in> five_labels"
    by (rule number_in_five_labels, rule js_div_not_NaN) (simp_all add: n assms)
  from r have f:
    "currentRatioInterpretation (calculateRatios s) =
       (if is_zero l then PasivosCirculantesEsCero
        else getCurrentRatioInterpretation (JNumber (js_div a l)))"
    "quickRatioInterpretation (calculateRatios s) =
       (if is_zero l then PasivosCirculantesEsCero
        else getQuickRatioInterpretation (JNumber (js_div (js_sub a i) l)))"
    "debtToEquityInterpretation (calculateRatios s) =
       (if is_zero e then PatrimonioNetoEsCero
        else getDebtToEquityInterpretation (JNumber (js_div d e)))"
    "debtToAssetsInterpretation (calculateRatios s) =
       (if is_zero t then ActivosTotalesEsCero
        else getDebtToAssetsInterpretation (JNumber (js_div d t)))"
    by (simp_all split: if_splits)
  show ?thesis
    using r c q de da unfolding f by (simp only: simp_thms if_False split: if_splits)
qed

theorem zero_denominator_per_ratio_witness:
  "parseFloat (currentAssets (form_with ''150'' ''0'' ''30'' ''500'' ''400'' ''100'')) = Fin 150
 \<and> parseFloat (currentLiabilities (form_with ''150'' ''0'' ''30'' ''500'' ''400'' ''100'')) = Fin 0
 \<and> parseFloat (inventory (form_with ''150'' ''0'' ''30'' ''500'' ''400'' ''100'')) = Fin 30
 \<and> parseFloat (totalAssets (form_with ''150'' ''0'' ''30'' ''500'' ''400'' ''100'')) = Fin 500
 \<and> parseFloat (totalLiabilities (form_with ''150'' ''0'' ''30'' ''500'' ''400'' ''100'')) = Fin 400
 \<and> parseFloat (shareholdersEquity (form_with ''150'' ''0'' ''30'' ''500'' ''400'' ''100'')) = Fin 100
 \<and> is_finite (Fin 150) \<and> is_finite (Fin 0) \<and> is_finite (Fin 30)
 \<and> is_finite (Fin 500) \<and> is_finite (Fin 400) \<and> is_finite (Fin 100)
 \<and> results_of (calculateRatios (form_with ''150'' ''0'' ''30'' ''500'' ''400'' ''100'')) =
      ((Some (Str ''N/A''), PasivosCirculantesEsCero),
       (Some (Str ''N/A''), PasivosCirculantesEsCero),
       (Some (Str ''4.00''), Malo),
       (Some (Str ''0.80''), Malo),
       NoError)
 \<and> parseFloat (currentAssets (form_with ''150'' ''100'' ''30'' ''0'' ''400'' ''-0'')) = Fin 150
 \<and> parseFloat (currentLiabilities (form_with ''150'' ''100'' ''30'' ''0'' ''400'' ''-0'')) = Fin 100
 \<and> parseFloat (inventory (form_with ''150'' ''100'' ''30'' ''0'' ''400'' ''-0'')) = Fin 30
 \<and> parseFloat (totalAssets (form_with ''150'' ''100'' ''30'' ''0'' ''400'' ''-0'')) = Fin 0
 \<and> parseFloat (totalLiabilities (form_with ''150'' ''100'' ''30'' ''0'' ''400'' ''-0'')) = Fin 400
 \<and> parseFloat (shareholdersEquity (form_with ''150'' ''100'' ''30'' ''0'' ''400'' ''-0'')) = NegZero
 \<and> is_finite NegZero
 \<and> results_of (calculateRatios (form_with ''150'' ''100'' ''30'' ''0'' ''400'' ''-0'')) =
      ((Some (Str ''1.50''), Bueno),
       (Some (Str ''1.20''), Bueno),
       (Some (Str ''N/A''), PatrimonioNetoEsCero),
       (Some (Str ''N/A''), ActivosTotalesEsCero),
       NoError)"
proof -
  have b: "getDebtToEquityInterpretation (JNumber (Fin 4)) = Malo"
    "getDebtToAssetsInterpretation (JNumber (Fin (3602879701896397 / 4503599627370496))) = Malo"
    "getCurrentRatioInterpretation (JNumber (Fin (3 / 2))) = Bueno"
    "getQuickRatioInterpretation (JNumber (Fin (5404319552844595 / 4503599627370496))) = Bueno"
    by (simp_all add: debtToEquity_buckets debtToAssets_buckets current_buckets quick_buckets
          nearest64_literals)
  show ?thesis
    using zero_denominator_per_ratio
        [of "form_with ''150'' ''0'' ''30'' ''500'' ''400'' ''100''"
            "Fin 150" "Fin 0" "Fin 30" "Fin 500" "Fin 400" "Fin 100"]
      zero_denominator_per_ratio
        [of "form_with ''150'' ''100'' ''30'' ''0'' ''400'' ''-0''"
            "Fin 150" "Fin 100" "Fin 30" "Fin 0" "Fin 400" NegZero]
    by (simp add: results_of_def form_with_fields parse_examples b quotient_examples
          toFixed2_examples is_zero_def)
qed

section \<open>Negative equity\<close>

lemma negative_classified:
  assumes "v = NegInf \<or> v = NegZero \<or> (\<exists>y. y < 0 \<and> v = Fin y)"
  shows "js_lt v (Fin 0) \<or> v = NegZero"
    and "getDebtToEquityInterpretation (JNumber v) = Excelente"
proof -
  consider "v = NegInf" | "v = NegZero" | y where "y < 0" and "v = Fin y"
    using assms by blast
  then have "(js_lt v (Fin 0) \<or> v = NegZero)
      \<and> getDebtToEquityInterpretation (JNumber v) = Excelente"
  proof cases
    case 1
    then show ?thesis
      by (simp add: js_lt_def getDebtToEquityInterpretation_def)
  next
    case 2
    then show ?thesis
      by (simp add: js_lt_def getDebtToEquityInterpretation_def)
  next
    case 3
    from 3(1) have "y < 1 / 2"
      by simp
    then have "getDebtToEquityInterpretation (JNumber (Fin y)) = Excelente"
      by (simp only: debtToEquity_buckets)
    then show ?thesis
      using 3 by (simp add: js_compare_Fin)
  qed
  then show "js_lt v (Fin 0) \<or> v = NegZero"
    and "getDebtToEquityInterpretation (JNumber v) = Excelente"
    by simp_all
qed

lemma js_div_Fin: "y \<noteq> 0 \<Longrightarrow> x \<noteq> 0 \<Longrightarrow> js_div (Fin x) (Fin y) = number_value (x / y)"
  by (simp add: js_div_def)

lemma negative_quotient:
  assumes "e < 0" and "0 < d"
  shows "js_lt (js_div (Fin d) (Fin e)) (Fin 0) \<or> js_div (Fin d) (Fin e) = NegZero"
    and "getDebtToEquityInterpretation (JNumber (js_div (Fin d) (Fin e))) = Excelente"
proof -
  have n: "d / e < 0"
    using assms(2) assms(1) by (rule divide_pos_neg)
  have "e \<noteq> 0" and "d \<noteq> 0"
    using assms by simp_all
  then have q: "js_div (Fin d) (Fin e) = number_value (d / e)"
    by (rule js_div_Fin)
  show "js_lt (js_div (Fin d) (Fin e)) (Fin 0) \<or> js_div (Fin d) (Fin e) = NegZero"
    unfolding q using number_value_negative [OF n] by (rule negative_classified)
  show "getDebtToEquityInterpretation (JNumber (js_div (Fin d) (Fin e))) = Excelente"
    unfolding q using number_value_negative [OF n] by (rule negative_classified)
qed

lemma finite_below_zero: "is_finite v \<Longrightarrow> js_lt v (Fin 0) \<Longrightarrow> \<exists>x. x < 0 \<and> v = Fin x"
  by (cases v) (simp_all add: js_lt_def)

lemma finite_above_zero: "is_finite v \<Longrightarrow> js_gt v (Fin 0) \<Longrightarrow> \<exists>x. 0 < x \<and> v = Fin x"
  by (cases v) (simp_all add: js_gt_def js_lt_def)

text \<open>
  Claim C10, as amended. With finite fields, shareholders' equity below zero and total
  liabilities above zero, the debt-to-equity ratio is computed (the cell holds the
  printed quotient, not \<^verbatim>\<open>N/A\<close>), the quotient is below zero or, where it underflows,
  negative zero, and its label is \<open>Excelente\<close>, however large the liabilities are.
\<close>

theorem negative_equity_excellent:
  assumes "parseFloat (currentAssets s) = a"
    and "parseFloat (currentLiabilities s) = l"
    and "parseFloat (inventory s) = i"
    and "parseFloat (totalAssets s) = t"
    and "parseFloat (totalLiabilities s) = d"
    and "parseFloat (shareholdersEquity s) = e"
    and "is_finite a" and "is_finite l" and "is_finite i"
    and "is_finite t" and "is_finite d" and "is_finite e"
    and "js_lt e (Fin 0)" and "js_gt d (Fin 0)"
  shows "debtToEquityRatio (calculateRatios s) = Some (toFixed2 (js_div d e))
       \<and> (js_lt (js_div d e) (Fin 0) \<or> js_div d e = NegZero)
       \<and> debtToEquityInterpretation (calculateRatios s) = Excelente"
proof -
  obtain x where x: "x < 0" "e = Fin x"
    using finite_below_zero [OF assms(12,13)] by blast
  obtain y where y: "0 < y" "d = Fin y"
    using finite_above_zero [OF assms(11,14)] by blast
  have "\<not> is_zero e"
    using x by (simp add: is_zero_def)
  then have "(debtToEquityRatio (calculateRatios s), debtToEquityInterpretation (calculateRatios s)) =
      (Some (toFixed2 (js_div d e)), getDebtToEquityInterpretation (JNumber (js_div d e)))"
    using results_finite [OF assms(1-12)] unfolding results_of_def by simp
  then show ?thesis
    using negative_quotient [OF x(1) y(1)] unfolding x(2) y(2) by simp
qed

theorem negative_equity_excellent_witness:
  "parseFloat (currentAssets (form_with ''150'' ''100'' ''30'' ''500'' ''400'' ''-100'')) = Fin 150
 \<and> parseFloat (currentLiabilities (form_with ''150'' ''100'' ''30'' ''500'' ''400'' ''-100'')) = Fin 100
 \<and> parseFloat (inventory (form_with ''150'' ''100'' ''30'' ''500'' ''400'' ''-100'')) = Fin 30
 \<and> parseFloat (totalAssets (form_with ''150'' ''100'' ''30'' ''500'' ''400'' ''-100'')) = Fin 500
 \<and> parseFloat (totalLiabilities (form_with ''150'' ''100'' ''30'' ''500'' ''400'' ''-100'')) = Fin 400
 \<and> parseFloat (shareholdersEquity (form_with ''150'' ''100'' ''30'' ''500'' ''400'' ''-100'')) = Fin (- 100)
 \<and> is_finite (Fin 150) \<and> is_finite (Fin 100) \<and> is_finite (Fin 30)
 \<and> is_finite (Fin 500) \<and> is_finite (Fin 400) \<and> is_finite (Fin (- 100))
 \<and> js_lt (Fin (- 100)) (Fin 0) \<and> js_gt (Fin 400) (Fin 0)
 \<and> debtToEquityRatio (calculateRatios (form_with ''150'' ''100'' ''30'' ''500'' ''400'' ''-100'')) = Some (Str ''-4.00'')
 \<and> js_lt (js_div (Fin 400) (Fin (- 100))) (Fin 0)
 \<and> debtToEquityInterpretation (calculateRatios (form_with ''150'' ''100'' ''30'' ''500'' ''400'' ''-100'')) = Excelente"
  using negative_equity_excellent
      [of "form_with ''150'' ''100'' ''30'' ''500'' ''400'' ''-100''"
          "Fin 150" "Fin 100" "Fin 30" "Fin 500" "Fin 400" "Fin (- 100)"]
  by (simp add: form_with_fields parse_examples quotient_examples toFixed2_examples
        js_compare_Fin)

section \<open>Long decimal texts\<close>

lemma is_digit_plain:
  assumes "is_digit c"
  shows "\<not> is_white_space c" and "c \<noteq> CHR ''-''" and "c \<noteq> CHR ''+''"
    and "c \<noteq> CHR ''I''" and "c \<noteq> CHR ''.''"
  using assms by (auto simp add: is_digit_def is_white_space_def)

lemma scale10_neg: "scale10 m (- int k) = m / 10 ^ k"
  by (cases "k = 0") (simp_all add: scale10_def)

lemma parse_unsigned_decimal:
  assumes "ip \<noteq> []" and "\<forall>c\<in>set ip. is_digit c" and "\<forall>c\<in>set fp. is_digit c"
  shows "parseFloat (ip @ CHR ''.'' # fp) =
         (if digits_value (ip @ fp) = 0 then Fin 0
          else number_value (of_int (digits_value (ip @ fp)) / 10 ^ length fp))"
proof -
  obtain c cs where ip: "ip = c # cs"
    using assms(1) by (cases ip) auto
  have c: "is_digit c"
    using assms(2) ip by simp
  have ws: "dropWhile is_white_space (ip @ CHR ''.'' # fp) = ip @ CHR ''.'' # fp"
    using is_digit_plain(1) [OF c] by (simp add: ip)
  have sg: "strip_sign (ip @ CHR ''.'' # fp) = (False, ip @ CHR ''.'' # fp)"
    using is_digit_plain(2,3) [OF c] by (simp add: ip strip_sign_def)
  have inf: "take 8 (ip @ CHR ''.'' # fp) \<noteq> ''Infinity''"
    using is_digit_plain(4) [OF c] by (simp add: ip take_Cons')
  have nd: "\<not> is_digit CHR ''.''"
    by (simp add: is_digit_def)
  have tw: "takeWhile is_digit (ip @ CHR ''.'' # fp) = ip"
    using assms(2) nd by (simp add: takeWhile_append2)
  have dw: "dropWhile is_digit (ip @ CHR ''.'' # fp) = CHR ''.'' # fp"
    using assms(2) nd by (simp add: dropWhile_append2)
  have tf: "takeWhile is_digit fp = fp" "dropWhile is_digit fp = []"
    using assms(3) by (simp_all add: takeWhile_eq_all_conv)
  show ?thesis
    unfolding parseFloat_def ws sg
    using inf assms(1)
    by (simp add: tw dw tf Let_def exponent_part_def scale10_neg signed_zero_def)
qed

lemma parse_negative_decimal:
  assumes "ip \<noteq> []" and "\<forall>c\<in>set ip. is_digit c" and "\<forall>c\<in>set fp. is_digit c"
  shows "parseFloat (CHR ''-'' # ip @ CHR ''.'' # fp) =
         (if digits_value (ip @ fp) = 0 then NegZero
          else number_value (- (of_int (digits_value (ip @ fp)) / 10 ^ length fp)))"
proof -
  obtain c cs where ip: "ip = c # cs"
    using assms(1) by (cases ip) auto
  have c: "is_digit c"
    using assms(2) ip by simp
  have ws: "dropWhile is_white_space (CHR ''-'' # ip @ CHR ''.'' # fp) =
      CHR ''-'' # ip @ CHR ''.'' # fp"
    by (simp add: is_white_space_def)
  have sg: "strip_sign (CHR ''-'' # ip @ CHR ''.'' # fp) = (True, ip @ CHR ''.'' # fp)"
    by (simp add: strip_sign_def)
  have inf: "take 8 (ip @ CHR ''.'' # fp) \<noteq> ''Infinity''"
    using is_digit_plain(4) [OF c] by (simp add: ip take_Cons')
  have nd: "\<not> is_digit CHR ''.''"
    by (simp add: is_digit_def)
  have tw: "takeWhile is_digit (ip @ CHR ''.'' # fp) = ip"
    using assms(2) nd by (simp add: takeWhile_append2)
  have dw: "dropWhile is_digit (ip @ CHR ''.'' # fp) = CHR ''.'' # fp"
    using assms(2) nd by (simp add: dropWhile_append2)
  have tf: "takeWhile is_digit fp = fp" "dropWhile is_digit fp = []"
    using assms(3) by (simp_all add: takeWhile_eq_all_conv)
  show ?thesis
    unfolding parseFloat_def ws sg
    using inf assms(1)
    by (simp add: tw dw tf Let_def exponent_part_def scale10_neg signed_zero_def)
qed

lemma digits_value_small:
  "digits_value (CHR ''0'' # replicate k CHR ''0'' @ ''1'') = 1"
proof -
  have z: "foldl (\<lambda>n c. 10 * n + digit_value c) 0 (replicate k CHR ''0'') = 0"
    using digits_value_zeros [of 0 k] by simp
  have d: "digit_value CHR ''0'' = 0" "digit_value CHR ''1'' = 1"
    by (simp_all add: digit_value_def)
  show ?thesis
    unfolding digits_value_def by (simp add: z d)
qed

lemma small_text_digits:
  "\<forall>c\<in>set (replicate k CHR ''0'' @ ''1''). is_digit c"
  by (auto simp add: is_digit_def)

lemma parse_tiny:
  "parseFloat (''0.'' @ replicate 320 CHR ''0'' @ ''1'') = Fin (101 / 2 ^ 1073)"
proof -
  have "parseFloat (''0'' @ CHR ''.'' # (replicate 320 CHR ''0'' @ ''1'')) =
      number_value (1 / 10 ^ 321)"
    by (subst parse_unsigned_decimal)
       (simp_all add: small_text_digits digits_value_small is_digit_def)
  also have "\<dots> = Fin (101 / 2 ^ 1073)"
    by (simp add: number_eval)
  finally show ?thesis
    by simp
qed

lemma parse_underflow:
  "parseFloat (''0.'' @ replicate 400 CHR ''0'' @ ''1'') = Fin 0"
  "parseFloat (''-0.'' @ replicate 400 CHR ''0'' @ ''1'') = NegZero"
proof -
  have "parseFloat (''0'' @ CHR ''.'' # (replicate 400 CHR ''0'' @ ''1'')) =
      number_value (1 / 10 ^ 401)"
    by (subst parse_unsigned_decimal)
       (simp_all add: small_text_digits digits_value_small is_digit_def)
  also have "\<dots> = Fin 0"
    by (simp add: number_eval)
  finally show "parseFloat (''0.'' @ replicate 400 CHR ''0'' @ ''1'') = Fin 0"
    by simp
  have "parseFloat (CHR ''-'' # ''0'' @ CHR ''.'' # (replicate 400 CHR ''0'' @ ''1'')) =
      number_value (- (1 / 10 ^ 401))"
    by (subst parse_negative_decimal)
       (simp_all add: small_text_digits digits_value_small is_digit_def)
  also have "\<dots> = NegZero"
    by (simp add: number_eval)
  finally show "parseFloat (''-0.'' @ replicate 400 CHR ''0'' @ ''1'') = NegZero"
    by simp
qed

text \<open>
  With total liabilities \<open>10^-321\<close>, typed as a zero, a point, 320 zeros and a one, and
  shareholders' equity \<open>-1000\<close>, the quotient underflows to negative zero: it is not
  below zero, and it is shown as \<^verbatim>\<open>0.00\<close>.
\<close>

theorem underflowing_quotient_is_not_negative:
  "cleanedForStorage (''0.'' @ replicate 320 CHR ''0'' @ ''1'') =
     ''0.'' @ replicate 320 CHR ''0'' @ ''1''
 \<and> parseFloat (''0.'' @ replicate 320 CHR ''0'' @ ''1'') = Fin (101 / 2 ^ 1073)
 \<and> js_gt (Fin (101 / 2 ^ 1073)) (Fin 0)
 \<and> parseFloat ''-1000'' = Fin (- 1000)
 \<and> js_lt (Fin (- 1000)) (Fin 0)
 \<and> js_div (Fin (101 / 2 ^ 1073)) (Fin (- 1000)) = NegZero
 \<and> \<not> js_lt NegZero (Fin 0)
 \<and> debtToEquityRatio (calculateRatios
      (form_with ''1'' ''1'' ''1'' ''1'' (''0.'' @ replicate 320 CHR ''0'' @ ''1'') ''-1000'')) =
    Some (Str ''0.00'')
 \<and> debtToEquityInterpretation (calculateRatios
      (form_with ''1'' ''1'' ''1'' ''1'' (''0.'' @ replicate 320 CHR ''0'' @ ''1'') ''-1000'')) =
    Excelente"
proof -
  have c: "cleanedForStorage (''0.'' @ replicate 320 CHR ''0'' @ ''1'') =
      ''0.'' @ replicate 320 CHR ''0'' @ ''1''"
    by (simp add: cleanedForStorage_def)
  have q: "js_div (Fin (101 / 2 ^ 1073)) (Fin (- 1000)) = NegZero"
    by (simp add: js_eval number_eval)
  have x: "getDebtToEquityInterpretation (JNumber NegZero) = Excelente"
    by (simp add: getDebtToEquityInterpretation_def js_lt_def)
  have r: "results_of (calculateRatios
      (form_with ''1'' ''1'' ''1'' ''1'' (''0.'' @ replicate 320 CHR ''0'' @ ''1'') ''-1000'')) =
      ((Some (toFixed2 (js_div (Fin 1) (Fin 1))),
        getCurrentRatioInterpretation (JNumber (js_div (Fin 1) (Fin 1)))),
       (Some (toFixed2 (js_div (js_sub (Fin 1) (Fin 1)) (Fin 1))),
        getQuickRatioInterpretation (JNumber (js_div (js_sub (Fin 1) (Fin 1)) (Fin 1)))),
       (Some (toFixed2 NegZero), getDebtToEquityInterpretation (JNumber NegZero)),
       (Some (toFixed2 (js_div (Fin (101 / 2 ^ 1073)) (Fin 1))),
        getDebtToAssetsInterpretation (JNumber (js_div (Fin (101 / 2 ^ 1073)) (Fin 1)))),
       NoError)"
    using results_Fin
      [of "form_with ''1'' ''1'' ''1'' ''1'' (''0.'' @ replicate 320 CHR ''0'' @ ''1'') ''-1000''"
          1 1 1 1 "101 / 2 ^ 1073" "- 1000"]
    unfolding form_with_fields parse_examples parse_tiny q
    by simp
  show ?thesis
    using r c q x parse_tiny
    unfolding results_of_def
    by (simp add: parse_examples toFixed2_examples js_compare_Fin js_lt_def)
qed

section \<open>What toFixed prints\<close>

lemma decimal_not_Nil: "decimal n \<noteq> []"
  by (simp add: decimal.simps [of n])

lemma decimal_step: "\<not> n < 10 \<Longrightarrow> decimal n = decimal (n div 10) @ [digit_char (n mod 10)]"
  by (subst decimal.simps) simp

lemma decimal_digit: "n < 10 \<Longrightarrow> decimal n = [digit_char n]"
  by (subst decimal.simps) simp

lemma tens_digit: "(n::nat) div 10 mod 10 = n mod 100 div 10"
proof -
  have "n mod 100 = n mod (10 * 10)"
    by simp
  also have "\<dots> = 10 * (n div 10 mod 10) + n mod 10"
    by (rule mod_mult2_eq)
  finally show ?thesis
    by simp
qed

lemma decimal_last_two:
  assumes "100 \<le> n"
  shows "decimal n = decimal (n div 100) @ [digit_char (n mod 100 div 10), digit_char (n mod 10)]"
proof -
  have a: "\<not> n < 10" and b: "\<not> n div 10 < 10"
    using assms by simp_all
  have c: "n div 10 div 10 = n div 100"
    by (simp add: div_mult2_eq)
  show ?thesis
    unfolding decimal_step [OF a] decimal_step [OF b] c tens_digit by simp
qed

lemma fixed2_digits_two_decimal:
  "fixed2_digits n =
     decimal (n div 100) @ ''.'' @ [digit_char (n mod 100 div 10), digit_char (n mod 10)]"
proof -
  have z: "decimal 0 = ''0''"
    by (simp add: decimal_digit digit_char_def)
  have dz: "digit_char 0 = CHR ''0''"
    by (simp add: digit_char_def)
  consider "n < 10" | "10 \<le> n" and "n < 100" | "100 \<le> n"
    by linarith
  then show ?thesis
  proof cases
    case 1
    then have "n div 100 = 0" and "n mod 100 div 10 = 0" and "n mod 10 = n"
      by simp_all
    then show ?thesis
      unfolding fixed2_digits_def Let_def decimal_digit [OF 1]
      by (simp add: z dz numeral_2_eq_2)
  next
    case 2
    then have a: "\<not> n < 10" and b: "n div 10 < 10"
      by simp_all
    have "n div 100 = 0" and "n mod 100 div 10 = n div 10"
      using 2 by simp_all
    then show ?thesis
      unfolding fixed2_digits_def Let_def decimal_step [OF a] decimal_digit [OF b]
      by (simp add: z)
  next
    case 3
    have l: "length (decimal (n div 100)) \<noteq> 0"
      using decimal_not_Nil [of "n div 100"] by simp
    show ?thesis
      unfolding fixed2_digits_def Let_def decimal_last_two [OF 3]
      using l by simp
  qed
qed

lemma toFixed2_two_decimal:
  assumes "is_finite v" and "\<bar>value_of v\<bar> < 10 ^ 21"
  shows "toFixed2 v = Str (two_decimal_text (value_of v))"
  using assms
  by (cases v)
     (simp_all add: toFixed2_def fixed2_text_def two_decimal_text_def Let_def
        fixed2_digits_two_decimal)

section \<open>Rounding and classification\<close>

text \<open>
  Claim C3, as amended. For six finite fields, each computed ratio whose quotient is
  finite and below \<open>10^21\<close> in magnitude is shown as that quotient rounded to exactly two
  decimal places, a half away from zero, and its label is the label of the quotient
  itself, not of the rounded value.
\<close>

theorem label_of_unrounded_quotient:
  assumes "parseFloat (currentAssets s) = a"
    and "parseFloat (currentLiabilities s) = l"
    and "parseFloat (inventory s) = i"
    and "parseFloat (totalAssets s) = t"
    and "parseFloat (totalLiabilities s) = d"
    and "parseFloat (shareholdersEquity s) = e"
    and "is_finite a" and "is_finite l" and "is_finite i"
    and "is_finite t" and "is_finite d" and "is_finite e"
  shows "(\<not> is_zero l \<and> is_finite (js_div a l) \<and> \<bar>value_of (js_div a l)\<bar> < 10 ^ 21 \<longrightarrow>
            currentRatio (calculateRatios s) =
              Some (Str (two_decimal_text (value_of (js_div a l))))
          \<and> currentRatioInterpretation (calculateRatios s) =
              getCurrentRatioInterpretation (JNumber (js_div a l)))
       \<and> (\<not> is_zero l \<and> is_finite (js_div (js_sub a i) l)
            \<and> \<bar>value_of (js_div (js_sub a i) l)\<bar> < 10 ^ 21 \<longrightarrow>
            quickRatio (calculateRatios s) =
              Some (Str (two_decimal_text (value_of (js_div (js_sub a i) l))))
          \<and> quickRatioInterpretation (calculateRatios s) =
              getQuickRatioInterpretation (JNumber (js_div (js_sub a i) l)))
       \<and> (\<not> is_zero e \<and> is_finite (js_div d e) \<and> \<bar>value_of (js_div d e)\<bar> < 10 ^ 21 \<longrightarrow>
            debtToEquityRatio (calculateRatios s) =
              Some (Str (two_decimal_text (value_of (js_div d e))))
          \<and> debtToEquityInterpretation (calculateRatios s) =
              getDebtToEquityInterpretation (JNumber (js_div d e)))
       \<and> (\<not> is_zero t \<and> is_finite (js_div d t) \<and> \<bar>value_of (js_div d t)\<bar> < 10 ^ 21 \<longrightarrow>
            debtToAssetsRatio (calculateRatios s) =
              Some (Str (two_decimal_text (value_of (js_div d t))))
          \<and> debtToAssetsInterpretation (calculateRatios s) =
              getDebtToAssetsInterpretation (JNumber (js_div d t)))"
proof -
  note r = results_finite [OF assms, unfolded results_of_def prod.inject]
  have c: "currentRatio (calculateRatios s) =
             Some (Str (two_decimal_text (value_of (js_div a l))))
         \<and> currentRatioInterpretation (calculateRatios s) =
             getCurrentRatioInterpretation (JNumber (js_div a l))"
    if "\<not> is_zero l" and "is_finite (js_div a l)" and "\<bar>value_of (js_div a l)\<bar> < 10 ^ 21"
    using r that(1) toFixed2_two_decimal [OF that(2,3)] by simp
  have q: "quickRatio (calculateRatios s) =
             Some (Str (two_decimal_text (value_of (js_div (js_sub a i) l))))
         \<and> quickRatioInterpretation (calculateRatios s) =
             getQuickRatioInterpretation (JNumber (js_div (js_sub a i) l))"
    if "\<not> is_zero l" and "is_finite (js_div (js_sub a i) l)"
      and "\<bar>value_of (js_div (js_sub a i) l)\<bar> < 10 ^ 21"
    using r that(1) toFixed2_two_decimal [OF that(2,3)] by simp
  have de: "debtToEquityRatio (calculateRatios s) =
             Some (Str (two_decimal_text (value_of (js_div d e))))
         \<and> debtToEquityInterpretation (calculateRatios s) =
             getDebtToEquityInterpretation (JNumber (js_div d e))"
    if "\<not> is_zero e" and "is_finite (js_div d e)" and "\<bar>value_of (js_div d e)\<bar> < 10 ^ 21"
    using r that(1) toFixed2_two_decimal [OF that(2,3)] by simp
  have da: "debtToAssetsRatio (calculateRatios s) =
             Some (Str (two_decimal_text (value_of (js_div d t))))
         \<and> debtToAssetsInterpretation (calculateRatios s) =
             getDebtToAssetsInterpretation (JNumber (js_div d t))"
    if "\<not> is_zero t" and "is_finite (js_div d t)" and "\<bar>value_of (js_div d t)\<bar> < 10 ^ 21"
    using r that(1) toFixed2_two_decimal [OF that(2,3)] by simp
  show ?thesis
    using c q de da by blast
qed

lemma two_decimal_text_examples:
  "two_decimal_text (4512606826625237 / 2251799813685248) = ''2.00''"
  "two_decimal_text (1 / 3) = ''0.33''"
  "two_decimal_text (- (1 / 1000)) = ''-0.00''"
  "two_decimal_text (123456 / 1000) = ''123.46''"
  by (simp_all add: two_decimal_text_def decimal.simps digit_char_def)

theorem label_of_unrounded_quotient_witness:
  "parseFloat (currentAssets (form_with ''2.004'' ''1'' ''1'' ''1'' ''1'' ''1'')) =
     Fin (4512606826625237 / 2251799813685248)
 \<and> parseFloat (currentLiabilities (form_with ''2.004'' ''1'' ''1'' ''1'' ''1'' ''1'')) = Fin 1
 \<and> parseFloat (inventory (form_with ''2.004'' ''1'' ''1'' ''1'' ''1'' ''1'')) = Fin 1
 \<and> parseFloat (totalAssets (form_with ''2.004'' ''1'' ''1'' ''1'' ''1'' ''1'')) = Fin 1
 \<and> parseFloat (totalLiabilities (form_with ''2.004'' ''1'' ''1'' ''1'' ''1'' ''1'')) = Fin 1
 \<and> parseFloat (shareholdersEquity (form_with ''2.004'' ''1'' ''1'' ''1'' ''1'' ''1'')) = Fin 1
 \<and> is_finite (Fin (4512606826625237 / 2251799813685248)) \<and> is_finite (Fin 1)
 \<and> \<not> is_zero (Fin 1)
 \<and> is_finite (js_div (Fin (4512606826625237 / 2251799813685248)) (Fin 1))
 \<and> \<bar>value_of (js_div (Fin (4512606826625237 / 2251799813685248)) (Fin 1))\<bar> < 10 ^ 21
 \<and> currentRatio (calculateRatios (form_with ''2.004'' ''1'' ''1'' ''1'' ''1'' ''1'')) =
      Some (Str ''2.00'')
 \<and> currentRatioInterpretation (calculateRatios (form_with ''2.004'' ''1'' ''1'' ''1'' ''1'' ''1'')) =
      Excelente"
proof -
  have x: "getCurrentRatioInterpretation
      (JNumber (Fin (4512606826625237 / 2251799813685248))) = Excelente"
    by (simp add: current_buckets)
  show ?thesis
    using label_of_unrounded_quotient
      [of "form_with ''2.004'' ''1'' ''1'' ''1'' ''1'' ''1''"
          "Fin (4512606826625237 / 2251799813685248)" "Fin 1" "Fin 1" "Fin 1" "Fin 1" "Fin 1"]
      x
    by (simp add: form_with_fields parse_examples quotient_examples
          two_decimal_text_examples is_zero_def)
qed

text \<open>
  With current assets 2.004 and current liabilities 1 the ratio is shown as \<^verbatim>\<open>2.00\<close>
  and labelled \<open>Excelente\<close>, the label of the quotient; the label of the shown value
  2.00 is \<open>Bueno\<close>.
\<close>

theorem label_differs_from_label_of_rounded:
  "currentRatio (calculateRatios (form_with ''2.004'' ''1'' ''1'' ''1'' ''1'' ''1'')) =
     Some (Str ''2.00'')
 \<and> currentRatioInterpretation (calculateRatios (form_with ''2.004'' ''1'' ''1'' ''1'' ''1'' ''1'')) =
     Excelente
 \<and> getCurrentRatioInterpretation (JNumber (parseFloat ''2.00'')) = Bueno"
proof -
  have x: "getCurrentRatioInterpretation
      (JNumber (Fin (4512606826625237 / 2251799813685248))) = Excelente"
    "getCurrentRatioInterpretation (JNumber (Fin 2)) = Bueno"
    by (simp_all add: current_buckets)
  show ?thesis
    using results_Fin
      [of "form_with ''2.004'' ''1'' ''1'' ''1'' ''1'' ''1''"
          "4512606826625237 / 2251799813685248" 1 1 1 1 1]
      quotient_examples(8) x toFixed2_examples(5)
    by (simp add: results_of_def form_with_fields parse_examples)
qed

section \<open>The arithmetic at values binary64 does not hold exactly\<close>

text \<open>
  The quotient of 0.3 and 0.2 is just below 1.5, that of 2.1 and 3 just above 0.7, the
  difference of 0.70 and 0.40 just below 0.3, and 1.005 is read as a value just below
  it; a field too small for binary64 is read as a zero.
\<close>

lemma parse_inexact:
  "parseFloat ''0.3'' = Fin (5404319552844595 / 18014398509481984)"
  "parseFloat ''0.2'' = Fin (3602879701896397 / 18014398509481984)"
  "parseFloat ''2.1'' = Fin (4728779608739021 / 2251799813685248)"
  "parseFloat ''3'' = Fin 3"
  "parseFloat ''0.70'' = Fin (3152519739159347 / 4503599627370496)"
  "parseFloat ''0.40'' = Fin (3602879701896397 / 9007199254740992)"
  "parseFloat ''1.005'' = Fin (1131529406376837 / 1125899906842624)"
  by (simp_all add: parse_eval number_eval signed_zero_def)

lemma inexact_quotients:
  "js_div (Fin (5404319552844595 / 18014398509481984))
          (Fin (3602879701896397 / 18014398509481984)) =
     Fin (6755399441055743 / 4503599627370496)"
  "js_div (Fin (4728779608739021 / 2251799813685248)) (Fin 3) =
     Fin (6305039478318695 / 9007199254740992)"
  "js_div (js_sub (Fin (3152519739159347 / 4503599627370496))
                  (Fin (3602879701896397 / 9007199254740992))) (Fin 1) =
     Fin (2702159776422297 / 9007199254740992)"
  "js_div (Fin (1131529406376837 / 1125899906842624)) (Fin 1) =
     Fin (1131529406376837 / 1125899906842624)"
  by (simp_all add: js_eval number_eval)

lemma inexact_results:
  "currentRatio (calculateRatios (form_with ''0.3'' ''0.2'' ''1'' ''1'' ''1'' ''1'')) =
     Some (Str ''1.50'')"
  "currentRatioInterpretation (calculateRatios (form_with ''0.3'' ''0.2'' ''1'' ''1'' ''1'' ''1'')) =
     Regular"
  "debtToAssetsInterpretation (calculateRatios (form_with ''1'' ''1'' ''1'' ''3'' ''2.1'' ''1'')) =
     Malo"
  "quickRatioInterpretation (calculateRatios (form_with ''0.70'' ''1'' ''0.40'' ''1'' ''1'' ''1'')) =
     Pesimo"
  "currentRatio (calculateRatios (form_with ''1.005'' ''1'' ''1'' ''1'' ''1'' ''1'')) =
     Some (Str ''1.00'')"
proof -
  have t: "toFixed2 (Fin (6755399441055743 / 4503599627370496)) = Str ''1.50''"
    "toFixed2 (Fin (1131529406376837 / 1125899906842624)) = Str ''1.00''"
    by (simp_all add: fixed_eval)
  have b: "getCurrentRatioInterpretation
        (JNumber (Fin (6755399441055743 / 4503599627370496))) = Regular"
    "getDebtToAssetsInterpretation
        (JNumber (Fin (6305039478318695 / 9007199254740992))) = Malo"
    "getQuickRatioInterpretation
        (JNumber (Fin (2702159776422297 / 9007199254740992))) = Pesimo"
    by (simp_all add: current_buckets debtToAssets_buckets quick_buckets nearest64_literals)
  show "currentRatio (calculateRatios (form_with ''0.3'' ''0.2'' ''1'' ''1'' ''1'' ''1'')) =
     Some (Str ''1.50'')"
    and "currentRatioInterpretation
      (calculateRatios (form_with ''0.3'' ''0.2'' ''1'' ''1'' ''1'' ''1'')) = Regular"
    using results_Fin
      [of "form_with ''0.3'' ''0.2'' ''1'' ''1'' ''1'' ''1''"
          "5404319552844595 / 18014398509481984" "3602879701896397 / 18014398509481984" 1 1 1 1]
      inexact_quotients(1) t b
    by (simp_all add: results_of_def form_with_fields parse_examples parse_inexact)
  show "debtToAssetsInterpretation
      (calculateRatios (form_with ''1'' ''1'' ''1'' ''3'' ''2.1'' ''1'')) = Malo"
    using results_Fin
      [of "form_with ''1'' ''1'' ''1'' ''3'' ''2.1'' ''1''"
          1 1 1 3 "4728779608739021 / 2251799813685248" 1]
      inexact_quotients(2) b
    by (simp add: results_of_def form_with_fields parse_examples parse_inexact)
  show "quickRatioInterpretation
      (calculateRatios (form_with ''0.70'' ''1'' ''0.40'' ''1'' ''1'' ''1'')) = Pesimo"
    using results_Fin
      [of "form_with ''0.70'' ''1'' ''0.40'' ''1'' ''1'' ''1''"
          "3152519739159347 / 4503599627370496" 1 "3602879701896397 / 9007199254740992" 1 1 1]
      inexact_quotients(3) b
    by (simp add: results_of_def form_with_fields parse_examples parse_inexact)
  show "currentRatio (calculateRatios (form_with ''1.005'' ''1'' ''1'' ''1'' ''1'' ''1'')) =
     Some (Str ''1.00'')"
    using results_Fin
      [of "form_with ''1.005'' ''1'' ''1'' ''1'' ''1'' ''1''"
          "1131529406376837 / 1125899906842624" 1 1 1 1 1]
      inexact_quotients(4) t
    by (simp add: results_of_def form_with_fields parse_examples parse_inexact)
qed

lemma underflowing_denominator:
  "results_of (calculateRatios
     (form_with ''1'' (''0.'' @ replicate 400 CHR ''0'' @ ''1'') ''1'' ''1'' ''1''
        (''-0.'' @ replicate 400 CHR ''0'' @ ''1''))) =
   ((Some (Str ''N/A''), PasivosCirculantesEsCero),
    (Some (Str ''N/A''), PasivosCirculantesEsCero),
    (Some (Str ''N/A''), PatrimonioNetoEsCero),
    (Some (Str ''1.00''), Pesimo),
    NoError)"
proof -
  have q: "js_div (Fin 1) (Fin 1) = Fin 1"
    by (simp add: js_eval number_eval)
  have t: "toFixed2 (Fin 1) = Str ''1.00''"
    by (simp add: fixed_eval)
  have b: "getDebtToAssetsInterpretation (JNumber (Fin 1)) = Pesimo"
    by (simp add: debtToAssets_buckets nearest64_literals)
  show ?thesis
    using results_finite
      [of "form_with ''1'' (''0.'' @ replicate 400 CHR ''0'' @ ''1'') ''1'' ''1'' ''1''
             (''-0.'' @ replicate 400 CHR ''0'' @ ''1'')"
          "Fin 1" "Fin 0" "Fin 1" "Fin 1" "Fin 1" NegZero]
    unfolding form_with_fields parse_examples parse_underflow
    by (simp add: is_zero_def q t b)
qed

end
